theory Spec2Isabelle
  imports Complex_Main
begin

section \<open>Block lifecycle and parameter sharing of akid (core/blocks.py)\<close>

text \<open>
  The theory embeds \<^verbatim>\<open>Block\<close> and \<^verbatim>\<open>ProcessingLayer\<close> of
  \<^verbatim>\<open>core/blocks.py\<close>. Python objects live in an explicit store: a heap of
  objects (attribute records) and a heap of list objects, so that the aliasing made by
  \<^verbatim>\<open>copy.copy\<close> is visible. Exceptions are values, and the tensorflow
  library is a record of operations over an abstract graph state.
\<close>

subsection \<open>Exceptions, log output, tensors\<close>

datatype exn =
    SystemExit int
  | AssertionError string
  | NotImplementedError string
  | AttributeError string
  | ValueError string
  | OtherError string

datatype level = DEBUG | INFO | ERROR

datatype tensor = Tensor (op_name: string) (get_shape: "nat list")

datatype collection =
  TRAIN_SUMMARY_COLLECTION | VALID_SUMMARY_COLLECTION | OtherCollection string

type_synonym addr = nat

subsection \<open>The store\<close>

record ('o, 'tf) world =
  objs :: "'o list"
  pylists :: "tensor list list"
  tf :: 'tf
  glog :: "(level \<times> string) list"

type_synonym ('w, 'a) py = "'w \<Rightarrow> (exn + 'a) \<times> 'w"

definition py_return :: "'a \<Rightarrow> ('w, 'a) py" where
  "py_return x w = (Inr x, w)"

definition py_raise :: "exn \<Rightarrow> ('w, 'a) py" where
  "py_raise e w = (Inl e, w)"

definition py_bind :: "('w, 'a) py \<Rightarrow> ('a \<Rightarrow> ('w, 'b) py) \<Rightarrow> ('w, 'b) py" where
  "py_bind m f w = (case m w of (Inl e, w1) \<Rightarrow> (Inl e, w1) | (Inr x, w1) \<Rightarrow> f x w1)"

definition py_seq :: "('w, unit) py \<Rightarrow> ('w, 'b) py \<Rightarrow> ('w, 'b) py" where
  "py_seq m n = py_bind m (\<lambda>_. n)"

definition py_when :: "bool \<Rightarrow> ('w, unit) py \<Rightarrow> ('w, unit) py" where
  "py_when c m = (if c then m else py_return ())"

primrec py_for :: "'a list \<Rightarrow> ('a \<Rightarrow> ('w, unit) py) \<Rightarrow> ('w, unit) py" where
  "py_for [] f = py_return ()"
| "py_for (x # xs) f = py_seq (f x) (py_for xs f)"

definition py_get :: "('w \<Rightarrow> 'a) \<Rightarrow> ('w, 'a) py" where
  "py_get f w = (Inr (f w), w)"

definition log_msg :: "level \<Rightarrow> string \<Rightarrow> (('o, 'tf) world, unit) py" where
  "log_msg lv s w = (Inr (), w\<lparr>glog := glog w @ [(lv, s)]\<rparr>)"

definition tf_op :: "('tf \<Rightarrow> (exn + 'a) \<times> 'tf) \<Rightarrow> (('o, 'tf) world, 'a) py" where
  "tf_op f w = (case f (tf w) of (r, t) \<Rightarrow> (r, w\<lparr>tf := t\<rparr>))"

definition modify_obj :: "addr \<Rightarrow> ('o \<Rightarrow> 'o) \<Rightarrow> (('o, 'tf) world, unit) py" where
  "modify_obj a f w = (Inr (), w\<lparr>objs := (objs w)[a := f (objs w ! a)]\<rparr>)"

definition alloc_obj :: "'o \<Rightarrow> (('o, 'tf) world, addr) py" where
  "alloc_obj ob w = (Inr (length (objs w)), w\<lparr>objs := objs w @ [ob]\<rparr>)"

definition alloc_list :: "(('o, 'tf) world, addr) py" where
  "alloc_list w = (Inr (length (pylists w)), w\<lparr>pylists := pylists w @ [[]]\<rparr>)"

subsection \<open>Block\<close>

record block =
  name :: string
  do_summary :: bool
  bag :: "string option"
  is_setup :: "bool option"

text \<open>Python truthiness of the values the code tests.\<close>

definition truthy :: "bool option \<Rightarrow> bool" where
  "truthy b = (b = Some True)"

definition truthy_str :: "string option \<Rightarrow> bool" where
  "truthy_str s = (case s of None \<Rightarrow> False | Some x \<Rightarrow> x \<noteq> [])"

definition str_opt :: "string option \<Rightarrow> string" where
  "str_opt s = (case s of None \<Rightarrow> ''None'' | Some x \<Rightarrow> x)"

definition name_error_msg :: "string \<Rightarrow> string" where
  "name_error_msg cls = cls @ [CHR 0x27] @ ''s `name` argument cannot be None! It serves as an''
     @ '' identifier, also is used in visualization and'' @ '' summary etc.''"

text \<open>
  \<^verbatim>\<open>Block.__init__\<close>: \<open>cls\<close> is the text of \<^verbatim>\<open>type(self)\<close>. The result is
  the attribute record the constructor leaves on the object.
\<close>

definition Block_init ::
  "string \<Rightarrow> bool \<Rightarrow> string option \<Rightarrow> string option \<Rightarrow> (('o, 'tf) world, block) py" where
  "Block_init cls do_summary' name' bag' =
     (if \<not> truthy_str name' then
        py_seq (log_msg ERROR (name_error_msg cls)) (py_raise (SystemExit 1))
      else
        py_seq (log_msg INFO (the name' @ '' has bag: '' @ str_opt bag'))
          (py_return \<lparr>name = the name', do_summary = do_summary', bag = bag',
                      is_setup = None\<rparr>))"

text \<open>Creating a plain block: the object exists only when the constructor returns.\<close>

definition Block_new ::
  "string \<Rightarrow> bool \<Rightarrow> string option \<Rightarrow> string option \<Rightarrow> ((block, 'tf) world, addr) py" where
  "Block_new cls do_summary' name' bag' =
     py_bind (Block_init cls do_summary' name' bag') alloc_obj"

text \<open>The abstract methods raise, the hooks of \<^verbatim>\<open>Block\<close> do nothing.\<close>

definition Block_data :: "addr \<Rightarrow> ('w, tensor option) py" where
  "Block_data self = py_raise (NotImplementedError
     (''Each concrete block needs to implement this'' @ '' method to provide an interface to offer''
       @ '' data!''))"

definition Block_pre_setup :: "addr \<Rightarrow> ('w, unit) py" where
  "Block_pre_setup self = py_return ()"

definition Block_pre_setup_shared :: "addr \<Rightarrow> ('w, unit) py" where
  "Block_pre_setup_shared self = py_return ()"

definition Block_post_setup_shared :: "addr \<Rightarrow> ('w, unit) py" where
  "Block_post_setup_shared self = py_return ()"

definition Block_post_setup :: "addr \<Rightarrow> ('w, unit) py" where
  "Block_post_setup self = py_return ()"

definition Block_setup_abstract :: "addr \<Rightarrow> 'i \<Rightarrow> ('w, unit) py" where
  "Block_setup_abstract self args = py_raise (NotImplementedError
     (''Each sub-layer needs to implement this'' @ ''method to process data!''))"

text \<open>The methods a subclass may override, looked up at run time.\<close>

record ('w, 'i) methods =
  m_pre_setup :: "addr \<Rightarrow> ('w, unit) py"
  m_pre_setup_shared :: "addr \<Rightarrow> ('w, unit) py"
  m_setup :: "addr \<Rightarrow> 'i \<Rightarrow> ('w, unit) py"
  m_post_setup :: "addr \<Rightarrow> ('w, unit) py"
  m_post_setup_shared :: "addr \<Rightarrow> ('w, unit) py"

text \<open>
  The part of tensorflow (and of \<^verbatim>\<open>core/common.py\<close>) the module calls, as
  operations on the graph state \<open>'tf\<close>. A moving-average object is named by a number.
\<close>

record 'tf backend =
  tf_variable_scope :: "string \<Rightarrow> bool option \<Rightarrow> 'tf \<Rightarrow> (exn + unit) \<times> 'tf"
  tf_scope_exit :: "'tf \<Rightarrow> 'tf"
  tf_get_variable ::
    "string \<Rightarrow> nat list option \<Rightarrow> string option \<Rightarrow> 'tf \<Rightarrow> (exn + tensor) \<times> 'tf"
  tf_ExponentialMovingAverage :: "real \<Rightarrow> tensor \<Rightarrow> 'tf \<Rightarrow> (exn + nat) \<times> 'tf"
  tf_ema_apply :: "nat \<Rightarrow> tensor list \<Rightarrow> 'tf \<Rightarrow> (exn + string) \<times> 'tf"
  tf_ema_average :: "nat \<Rightarrow> tensor \<Rightarrow> 'tf \<Rightarrow> tensor option"
  tf_identity :: "string list \<Rightarrow> tensor \<Rightarrow> string \<Rightarrow> 'tf \<Rightarrow> (exn + tensor) \<times> 'tf"
  tf_scalar_summary :: "string \<Rightarrow> tensor \<Rightarrow> collection list \<Rightarrow> 'tf \<Rightarrow> (exn + unit) \<times> 'tf"
  tf_histogram_summary :: "string \<Rightarrow> tensor \<Rightarrow> collection list \<Rightarrow> 'tf \<Rightarrow> (exn + unit) \<times> 'tf"
  tf_zero_fraction :: "tensor \<Rightarrow> 'tf \<Rightarrow> (exn + tensor) \<times> 'tf"
  GLOBAL_STEP :: string
  global_var_scope :: string
  SPARSITY_SUMMARY_SUFFIX :: string

subsection \<open>Block.setup\<close>

text \<open>
  What a call of \<^verbatim>\<open>setup\<close> did, in order: the scope it entered and left, the
  phases it invoked and the exception a phase raised. The phases cannot see this list.
\<close>

datatype 'i phase = PreSetup | PreSetupShared | Setup 'i | PostSetup | PostSetupShared

datatype 'i event =
    ScopeEnter string "bool option"
  | Invoke "'i phase"
  | Raised "'i phase" exn
  | ScopeExit

type_synonym ('w, 'i) traced = "'w \<Rightarrow> (exn + unit) \<times> 'w \<times> 'i event list"

definition invoke :: "'i phase \<Rightarrow> ('w, unit) py \<Rightarrow> ('w, 'i) traced" where
  "invoke p h w =
     (case h w of
        (Inl e, w1) \<Rightarrow> (Inl e, w1, [Invoke p, Raised p e])
      | (Inr u, w1) \<Rightarrow> (Inr u, w1, [Invoke p]))"

definition and_then :: "('w, 'i) traced \<Rightarrow> ('w, 'i) traced \<Rightarrow> ('w, 'i) traced" where
  "and_then f g w =
     (case f w of
        (Inl e, w1, t1) \<Rightarrow> (Inl e, w1, t1)
      | (Inr u, w1, t1) \<Rightarrow> (case g w1 of (r, w2, t2) \<Rightarrow> (r, w2, t1 @ t2)))"

definition if_not_setup ::
  "addr \<Rightarrow> (('a block_scheme, 'tf) world, 'i) traced \<Rightarrow> (('a block_scheme, 'tf) world, 'i) traced"
  where
  "if_not_setup self f w =
     (if \<not> truthy (is_setup (objs w ! self)) then f w else (Inr (), w, []))"

text \<open>The body of the \<^verbatim>\<open>with\<close> statement.\<close>

definition setup_phases ::
  "(('a block_scheme, 'tf) world, 'i) methods \<Rightarrow> addr \<Rightarrow> 'i \<Rightarrow>
   (('a block_scheme, 'tf) world, 'i) traced" where
  "setup_phases M self args =
     and_then (invoke PreSetup (m_pre_setup M self))
    (and_then (if_not_setup self (invoke PreSetupShared (m_pre_setup_shared M self)))
    (and_then (invoke (Setup args) (m_setup M self args))
    (and_then (invoke PostSetup (m_post_setup M self))
              (if_not_setup self (invoke PostSetupShared (m_post_setup_shared M self))))))"

text \<open>
  \<^verbatim>\<open>Block.setup\<close>: the scope is left also when the body raises, and only a body
  that returns reaches the assignment of \<^verbatim>\<open>is_setup\<close>.
\<close>

definition Block_setup ::
  "(('a block_scheme, 'tf) world, 'i) methods \<Rightarrow> 'tf backend \<Rightarrow> addr \<Rightarrow> 'i \<Rightarrow>
   (('a block_scheme, 'tf) world, 'i) traced" where
  "Block_setup M B self args w =
     (let scope = name (objs w ! self); reuse = is_setup (objs w ! self) in
      case tf_variable_scope B scope reuse (tf w) of
        (Inl e, t) \<Rightarrow> (Inl e, w\<lparr>tf := t\<rparr>, [])
      | (Inr u, t) \<Rightarrow>
          (case setup_phases M self args (w\<lparr>tf := t\<rparr>) of
             (r, w1, tr) \<Rightarrow>
               let w2 = w1\<lparr>tf := tf_scope_exit B (tf w1)\<rparr>;
                   evs = ScopeEnter scope reuse # tr @ [ScopeExit]
               in (case r of
                     Inl e \<Rightarrow> (Inl e, w2, evs)
                   | Inr u \<Rightarrow>
                       (Inr (), w2\<lparr>objs := (objs w2)[self := (objs w2 ! self)\<lparr>is_setup := Some True\<rparr>]\<rparr>,
                        evs))))"

subsection \<open>ProcessingLayer\<close>

text \<open>
  An attribute that \<^verbatim>\<open>__init__\<close> does not create (\<^verbatim>\<open>_data\<close>,
  \<^verbatim>\<open>_loss\<close>, \<^verbatim>\<open>moving_averages\<close>, \<^verbatim>\<open>moving_averages_op\<close>) is
  \<open>None\<close> while the object lacks it; \<^verbatim>\<open>_data\<close> and \<^verbatim>\<open>_loss\<close> may
  also hold Python's \<^verbatim>\<open>None\<close>, which is \<open>Some None\<close>. \<open>var_list\<close> is the
  address of the list object.
\<close>

record layer = block +
  moving_average_decay :: "real option"
  var_list :: addr
  is_val :: bool
  moving_averages :: "nat option"
  moving_averages_op :: "string option"
  attr_data :: "tensor option option"
  attr_loss :: "tensor option option"

type_synonym 'tf lworld = "(layer, 'tf) world"

definition truthy_decay :: "real option \<Rightarrow> bool" where
  "truthy_decay d = (case d of None \<Rightarrow> False | Some x \<Rightarrow> x \<noteq> 0)"

text \<open>The condition of the assertion in \<^verbatim>\<open>ProcessingLayer.__init__\<close>.\<close>

definition decay_ok :: "real option \<Rightarrow> bool" where
  "decay_ok d = (d = None \<or> (the d \<ge> 0.5 \<and> the d < 1))"

definition decay_error_msg :: "string \<Rightarrow> string" where
  "decay_error_msg v = ''Invalid moving_average_decay value '' @ v @ ''. Should be None or''
     @ '' between [0.5, 1]''"

text \<open>
  \<^verbatim>\<open>ProcessingLayer.__init__\<close>; \<open>fmt\<close> is the text Python prints for the decay.
  The call of the constructor of \<^verbatim>\<open>Block\<close> comes first.
\<close>

definition ProcessingLayer_init ::
  "string \<Rightarrow> (real \<Rightarrow> string) \<Rightarrow> real option \<Rightarrow> bool \<Rightarrow> string option \<Rightarrow> string option \<Rightarrow>
   ('tf lworld, layer) py" where
  "ProcessingLayer_init cls fmt d do_summary' name' bag' =
     py_bind (Block_init cls do_summary' name' bag') (\<lambda>b.
       if \<not> decay_ok d then py_raise (AssertionError (decay_error_msg (fmt (the d))))
       else py_bind alloc_list (\<lambda>l.
              py_return \<lparr>name = name b, do_summary = do_summary b, bag = bag b,
                is_setup = is_setup b, moving_average_decay = d, var_list = l,
                is_val = False, moving_averages = None, moving_averages_op = None,
                attr_data = None, attr_loss = None\<rparr>))"

definition ProcessingLayer_new ::
  "string \<Rightarrow> (real \<Rightarrow> string) \<Rightarrow> real option \<Rightarrow> bool \<Rightarrow> string option \<Rightarrow> string option \<Rightarrow>
   ('tf lworld, addr) py" where
  "ProcessingLayer_new cls fmt d do_summary' name' bag' =
     py_bind (ProcessingLayer_init cls fmt d do_summary' name' bag') alloc_obj"

text \<open>\<^verbatim>\<open>copy.copy\<close> makes a new object with the same attribute values.\<close>

definition get_copy :: "addr \<Rightarrow> ('tf lworld, addr) py" where
  "get_copy self = py_bind (py_get (\<lambda>w. objs w ! self)) alloc_obj"

definition set_val :: "addr \<Rightarrow> ('tf lworld, unit) py" where
  "set_val self = modify_obj self (\<lambda>ob. ob\<lparr>is_val := True\<rparr>)"

definition get_val_copy :: "addr \<Rightarrow> ('tf lworld, addr) py" where
  "get_val_copy self =
     py_bind (get_copy self) (\<lambda>val_copy. py_seq (set_val val_copy) (py_return val_copy))"

text \<open>The properties \<^verbatim>\<open>data\<close> and \<^verbatim>\<open>loss\<close>.\<close>

definition data :: "layer \<Rightarrow> tensor option" where
  "data ob = (case attr_data ob of Some v \<Rightarrow> v | None \<Rightarrow> None)"

definition loss :: "layer \<Rightarrow> tensor option" where
  "loss ob = (case attr_loss ob of Some v \<Rightarrow> v | None \<Rightarrow> None)"

text \<open>A \<^verbatim>\<open>with tf.variable_scope(...)\<close> block: the scope is left in any case.\<close>

definition py_with_scope ::
  "'tf backend \<Rightarrow> string \<Rightarrow> bool option \<Rightarrow> (('o, 'tf) world, 'a) py \<Rightarrow> (('o, 'tf) world, 'a) py"
  where
  "py_with_scope B scope reuse body =
     py_bind (tf_op (tf_variable_scope B scope reuse)) (\<lambda>_ w.
       case body w of (r, w1) \<Rightarrow> (r, w1\<lparr>tf := tf_scope_exit B (tf w1)\<rparr>))"

definition ProcessingLayer_pre_setup_shared :: "'tf backend \<Rightarrow> addr \<Rightarrow> ('tf lworld, unit) py" where
  "ProcessingLayer_pre_setup_shared B self =
     py_bind (py_get (\<lambda>w. objs w ! self)) (\<lambda>ob.
       py_when (truthy_decay (moving_average_decay ob))
         (py_bind (py_with_scope B (global_var_scope B) (Some True)
                     (tf_op (tf_get_variable B (GLOBAL_STEP B) None None))) (\<lambda>step.
          py_bind (tf_op (tf_ExponentialMovingAverage B (the (moving_average_decay ob)) step))
            (\<lambda>ema. modify_obj self (\<lambda>ob. ob\<lparr>moving_averages := Some ema\<rparr>)))))"

definition data_summary :: "'tf backend \<Rightarrow> tensor \<Rightarrow> collection \<Rightarrow> ('tf lworld, unit) py" where
  "data_summary B d coll =
     (if \<not> (coll = TRAIN_SUMMARY_COLLECTION \<or> coll = VALID_SUMMARY_COLLECTION) then
        py_raise (AssertionError
          ''{} is not one of those defined in common.py. Some thing is wrong'')
      else
        py_seq (tf_op (tf_histogram_summary B (op_name d @ ''/activations'') d [coll]))
          (py_bind (tf_op (tf_zero_fraction B d)) (\<lambda>z.
             tf_op (tf_scalar_summary B (op_name d @ ''/'' @ SPARSITY_SUMMARY_SUFFIX B) z
               [coll]))))"

definition ProcessingLayer_post_setup :: "'tf backend \<Rightarrow> addr \<Rightarrow> ('tf lworld, unit) py" where
  "ProcessingLayer_post_setup B self =
     py_bind (py_get (\<lambda>w. objs w ! self)) (\<lambda>ob.
       py_when (do_summary ob)
         (py_seq (log_msg INFO (''Do tensorboard summary on outputs of '' @ name ob))
            (let collection_to_add =
                   (if is_val ob then VALID_SUMMARY_COLLECTION else TRAIN_SUMMARY_COLLECTION)
             in py_seq
                  (case data ob of None \<Rightarrow> py_return ()
                   | Some d \<Rightarrow> data_summary B d collection_to_add)
                  (case loss ob of None \<Rightarrow> py_return ()
                   | Some l \<Rightarrow> tf_op (tf_scalar_summary B (op_name l) l [collection_to_add])))))"

definition var_summary :: "'tf backend \<Rightarrow> string \<Rightarrow> tensor option \<Rightarrow> ('tf lworld, unit) py" where
  "var_summary B tag var =
     (case var of
        None \<Rightarrow> py_raise (AttributeError ''get_shape'')
      | Some v \<Rightarrow>
          if length (get_shape v) = 0 then
            tf_op (tf_scalar_summary B tag v [TRAIN_SUMMARY_COLLECTION])
          else tf_op (tf_histogram_summary B tag v [TRAIN_SUMMARY_COLLECTION]))"

text \<open>\<^verbatim>\<open>s.split('/')[-1]\<close>\<close>

definition last_component :: "string \<Rightarrow> string" where
  "last_component s = rev (takeWhile (\<lambda>c. c \<noteq> CHR ''/'') (rev s))"

definition ProcessingLayer_post_setup_shared :: "'tf backend \<Rightarrow> addr \<Rightarrow> ('tf lworld, unit) py" where
  "ProcessingLayer_post_setup_shared B self =
     py_seq
       (py_bind (py_get (\<lambda>w. objs w ! self)) (\<lambda>ob.
        py_bind (py_get (\<lambda>w. pylists w ! var_list ob)) (\<lambda>vars.
          py_when (truthy_decay (moving_average_decay ob) \<and> length vars \<noteq> 0)
            (case moving_averages ob of
               None \<Rightarrow> py_raise (AttributeError ''moving_averages'')
             | Some ema \<Rightarrow>
                 py_bind (tf_op (tf_ema_apply B ema vars)) (\<lambda>avg_op.
                 py_seq (modify_obj self (\<lambda>ob. ob\<lparr>moving_averages_op := Some avg_op\<rparr>))
                   (case attr_data ob of
                      None \<Rightarrow> py_raise (AttributeError ''_data'')
                    | Some None \<Rightarrow> py_raise (AttributeError ''op'')
                    | Some (Some d) \<Rightarrow>
                        py_bind (tf_op (tf_identity B [avg_op] d
                                   (last_component (op_name d) @ ''_''))) (\<lambda>d'.
                          modify_obj self (\<lambda>ob. ob\<lparr>attr_data := Some (Some d')\<rparr>))))))))
    (py_seq
       (py_bind (py_get (\<lambda>w. objs w ! self)) (\<lambda>ob.
          py_when (do_summary ob)
            (py_seq (log_msg INFO (''Do tensorboard summary on variables of '' @ name ob))
               (py_bind (py_get (\<lambda>w. pylists w ! var_list ob)) (\<lambda>vars.
                  py_for vars (\<lambda>var. var_summary B (op_name var) (Some var)))))))
       (py_bind (py_get (\<lambda>w. objs w ! self)) (\<lambda>ob.
          py_when (truthy_decay (moving_average_decay ob))
            (py_bind (py_get (\<lambda>w. pylists w ! var_list ob)) (\<lambda>vars.
               py_for vars (\<lambda>var.
                 case moving_averages ob of
                   None \<Rightarrow> py_raise (AttributeError ''moving_averages'')
                 | Some ema \<Rightarrow>
                     py_bind (py_get (\<lambda>w. tf_ema_average B ema var (tf w))) (\<lambda>var_average.
                       var_summary B (op_name var @ ''_average'') var_average)))))))"

text \<open>
  \<^verbatim>\<open>ProcessingLayer._get_variable\<close>. The result is what the method returns:
  \<open>Some\<close> a handle, or \<open>None\<close> when the moving-average object knows no average
  of the variable.
\<close>

definition get_variable ::
  "'tf backend \<Rightarrow> addr \<Rightarrow> string \<Rightarrow> nat list \<Rightarrow> string \<Rightarrow> ('tf lworld, tensor option) py" where
  "get_variable B self name' shape initializer =
     py_bind (tf_op (tf_get_variable B name' (Some shape) (Some initializer))) (\<lambda>var.
     py_bind (py_get (\<lambda>w. objs w ! self)) (\<lambda>ob.
       if truthy (is_setup ob) then
         (if truthy_decay (moving_average_decay ob) then
            py_seq (log_msg DEBUG (''Use moving average of paras '' @ op_name var))
              (case moving_averages ob of
                 None \<Rightarrow> py_raise (AttributeError ''moving_averages'')
               | Some ema \<Rightarrow> py_get (\<lambda>w. tf_ema_average B ema var (tf w)))
          else
            py_seq (log_msg DEBUG (''Reuse paras '' @ op_name var)) (py_return (Some var)))
       else
         (\<lambda>w. (Inr (Some var),
                w\<lparr>pylists := (pylists w)[var_list ob := pylists w ! var_list ob @ [var]]\<rparr>))))"

subsection \<open>Subclasses\<close>

text \<open>
  \<^verbatim>\<open>_setup\<close> is abstract. A subclass body is a program over what the class offers
  it: \<^verbatim>\<open>_get_variable\<close>, the attributes \<^verbatim>\<open>_data\<close> and \<^verbatim>\<open>_loss\<close>,
  operations on the graph, and raising.
\<close>

datatype 'tf body =
    Done
  | GetVariable string "nat list" string "tensor option \<Rightarrow> 'tf body"
  | SetData "tensor option" "'tf body"
  | SetLoss "tensor option" "'tf body"
  | Graph "'tf \<Rightarrow> (exn + tensor) \<times> 'tf" "tensor \<Rightarrow> 'tf body"
  | Raise exn

primrec run_body :: "'tf backend \<Rightarrow> addr \<Rightarrow> 'tf body \<Rightarrow> ('tf lworld, unit) py" where
  "run_body B self Done = py_return ()"
| "run_body B self (GetVariable n shape init k) =
     py_bind (get_variable B self n shape init) (\<lambda>v. run_body B self (k v))"
| "run_body B self (SetData d k) =
     py_seq (modify_obj self (\<lambda>ob. ob\<lparr>attr_data := Some d\<rparr>)) (run_body B self k)"
| "run_body B self (SetLoss l k) =
     py_seq (modify_obj self (\<lambda>ob. ob\<lparr>attr_loss := Some l\<rparr>)) (run_body B self k)"
| "run_body B self (Graph f k) = py_bind (tf_op f) (\<lambda>t. run_body B self (k t))"
| "run_body B self (Raise e) = py_raise e"

text \<open>The method table of a subclass of \<^verbatim>\<open>ProcessingLayer\<close> with the given body.\<close>

definition ProcessingLayer_methods ::
  "'tf backend \<Rightarrow> ('i \<Rightarrow> 'tf body) \<Rightarrow> ('tf lworld, 'i) methods" where
  "ProcessingLayer_methods B prog =
     \<lparr>m_pre_setup = Block_pre_setup,
      m_pre_setup_shared = ProcessingLayer_pre_setup_shared B,
      m_setup = (\<lambda>self args. run_body B self (prog args)),
      m_post_setup = ProcessingLayer_post_setup B,
      m_post_setup_shared = ProcessingLayer_post_setup_shared B\<rparr>"

text \<open>The method table of \<^verbatim>\<open>Block\<close> itself.\<close>

definition Block_methods :: "('w, 'i) methods" where
  "Block_methods =
     \<lparr>m_pre_setup = Block_pre_setup,
      m_pre_setup_shared = Block_pre_setup_shared,
      m_setup = Block_setup_abstract,
      m_post_setup = Block_post_setup,
      m_post_setup_shared = Block_post_setup_shared\<rparr>"

subsection \<open>A small graph library to run the classes on\<close>

text \<open>
  One instance of the operations, with tensorflow's rule for shared variables: a scope
  opened with \<^verbatim>\<open>reuse=True\<close> only finds variables, any other scope only creates
  them. It serves to evaluate the definitions on concrete layers.
\<close>

record graph =
  g_scopes :: "(string \<times> bool) list"
  g_store :: "tensor list"
  g_averaged :: "tensor list list"
  g_summaries :: "(string \<times> collection list) list"

definition cur_prefix :: "graph \<Rightarrow> string" where
  "cur_prefix g = (case g_scopes g of [] \<Rightarrow> [] | (p, r) # _ \<Rightarrow> p @ ''/'')"

definition cur_reuse :: "graph \<Rightarrow> bool" where
  "cur_reuse g = (case g_scopes g of [] \<Rightarrow> False | (p, r) # _ \<Rightarrow> r)"

definition ref_variable_scope :: "string \<Rightarrow> bool option \<Rightarrow> graph \<Rightarrow> (exn + unit) \<times> graph" where
  "ref_variable_scope scope reuse g =
     (Inr (), g\<lparr>g_scopes :=
        ((if scope = ''global'' then scope else cur_prefix g @ scope),
         (reuse = Some True \<or> cur_reuse g)) # g_scopes g\<rparr>)"

definition ref_get_variable ::
  "string \<Rightarrow> nat list option \<Rightarrow> string option \<Rightarrow> graph \<Rightarrow> (exn + tensor) \<times> graph" where
  "ref_get_variable n shape init g =
     (let full = cur_prefix g @ n in
      case find (\<lambda>v. op_name v = full) (g_store g) of
        Some v \<Rightarrow> if cur_reuse g then (Inr v, g) else (Inl (ValueError full), g)
      | None \<Rightarrow>
          if cur_reuse g then (Inl (ValueError full), g)
          else (let v = Tensor full (case shape of None \<Rightarrow> [] | Some sh \<Rightarrow> sh)
                in (Inr v, g\<lparr>g_store := g_store g @ [v]\<rparr>)))"

definition ref_backend :: "graph backend" where
  "ref_backend =
     \<lparr>tf_variable_scope = ref_variable_scope,
      tf_scope_exit = (\<lambda>g. g\<lparr>g_scopes := tl (g_scopes g)\<rparr>),
      tf_get_variable = ref_get_variable,
      tf_ExponentialMovingAverage =
        (\<lambda>decay step g. (Inr (length (g_averaged g)), g\<lparr>g_averaged := g_averaged g @ [[]]\<rparr>)),
      tf_ema_apply =
        (\<lambda>ema vars g. (Inr ''ExponentialMovingAverage'',
           g\<lparr>g_averaged := (g_averaged g)[ema := g_averaged g ! ema @ vars]\<rparr>)),
      tf_ema_average =
        (\<lambda>ema v g. if v \<in> set (g_averaged g ! ema)
                    then Some (Tensor (op_name v @ ''/ExponentialMovingAverage'') (get_shape v))
                    else None),
      tf_identity = (\<lambda>deps d n g. (Inr (Tensor (cur_prefix g @ n) (get_shape d)), g)),
      tf_scalar_summary =
        (\<lambda>tag v colls g. (Inr (), g\<lparr>g_summaries := g_summaries g @ [(tag, colls)]\<rparr>)),
      tf_histogram_summary =
        (\<lambda>tag v colls g. (Inr (), g\<lparr>g_summaries := g_summaries g @ [(tag, colls)]\<rparr>)),
      tf_zero_fraction = (\<lambda>d g. (Inr (Tensor (op_name d @ ''/zero_fraction'') []), g)),
      GLOBAL_STEP = ''global_step'',
      global_var_scope = ''global'',
      SPARSITY_SUMMARY_SUFFIX = ''sparsity''\<rparr>"

definition graph0 :: graph where
  "graph0 = \<lparr>g_scopes = [], g_store = [Tensor ''global/global_step'' []], g_averaged = [],
             g_summaries = []\<rparr>"

definition world0 :: "('o, graph) world" where
  "world0 = \<lparr>objs = [], pylists = [], tf = graph0, glog = []\<rparr>"

text \<open>
  The text of a decay is not modelled. The store after constructing one layer named
  \<^verbatim>\<open>fc1\<close> with the given decay.
\<close>

definition no_repr :: "real \<Rightarrow> string" where
  "no_repr d = ''?''"

definition layer_world :: "real option \<Rightarrow> graph lworld" where
  "layer_world d =
     snd (ProcessingLayer_new ''ProcessingLayer'' no_repr d True (Some ''fc1'') None world0)"

text \<open>
  A layer with one weight: its \<^verbatim>\<open>_setup\<close> asks for the variable
  \<^verbatim>\<open>weights\<close> and stores it as output.
\<close>

definition one_weight :: "unit \<Rightarrow> graph body" where
  "one_weight args = GetVariable ''weights'' [2, 3] ''init'' (\<lambda>v. SetData v Done)"

text \<open>
  A layer whose \<^verbatim>\<open>_setup\<close> asks for the variable \<^verbatim>\<open>weights\<close>, builds an
  output from it in the graph and stores the output.
\<close>

definition dense :: "unit \<Rightarrow> graph body" where
  "dense args =
     GetVariable ''weights'' [2, 3] ''init'' (\<lambda>v.
       Graph (\<lambda>g. (Inr (Tensor (cur_prefix g @ ''output'') [3]), g)) (\<lambda>out.
         SetData (Some out) Done))"

text \<open>
  A layer whose \<^verbatim>\<open>_setup\<close> rejects a bad input and otherwise does what the layer
  with one weight does.
\<close>

definition flaky :: "bool \<Rightarrow> graph body" where
  "flaky bad = (if bad then Raise (ValueError ''bad input'') else one_weight ())"

subsection \<open>Learning-rate schedule\<close>

text \<open>
  Modelled from the spec: the exponential-decay policy of the learning-rate scheduler
  (its code, \<^verbatim>\<open>core/kongfus.py\<close>, is not among the sources; only the test
  \<^verbatim>\<open>test_exp_decay_lr_scheme\<close> is). The rate is a real number, given by the
  formula of the specification. For a period of zero steps the quotient, and so the
  exponent, is zero here.
\<close>

definition exponential_decay :: "real \<Rightarrow> real \<Rightarrow> nat \<Rightarrow> nat \<Rightarrow> nat \<Rightarrow> real" where
  "exponential_decay base_lr decay_rate steps_per_epoch decay_epoch_num step =
     base_lr * decay_rate ^ nat \<lfloor>real step / real (steps_per_epoch * decay_epoch_num)\<rfloor>"

subsection \<open>Predicates of the statements\<close>

text \<open>
  \<open>preserves R m\<close>: every run of \<open>m\<close>, returning or raising, relates the store before
  to the store after by \<open>R\<close>.
\<close>

definition preserves :: "('w \<Rightarrow> 'w \<Rightarrow> bool) \<Rightarrow> ('w, 'a) py \<Rightarrow> bool" where
  "preserves R m = (\<forall>w. R w (snd (m w)))"

text \<open>The object \<open>self\<close> stays in the store and keeps its \<^verbatim>\<open>is_setup\<close>.\<close>

definition stays ::
  "addr \<Rightarrow> ('a block_scheme, 'tf) world \<Rightarrow> ('a block_scheme, 'tf) world \<Rightarrow> bool" where
  "stays self w w' =
     (self < length (objs w) \<longrightarrow>
        self < length (objs w') \<and> is_setup (objs w' ! self) = is_setup (objs w ! self))"

text \<open>
  No phase of the method table assigns \<^verbatim>\<open>is_setup\<close> of \<open>self\<close>; only
  \<^verbatim>\<open>setup\<close> does. The phases defined in \<^verbatim>\<open>blocks.py\<close> are of this kind.
\<close>

definition well_behaved ::
  "(('a block_scheme, 'tf) world, 'i) methods \<Rightarrow> addr \<Rightarrow> bool" where
  "well_behaved M self =
     (preserves (stays self) (m_pre_setup M self)
      \<and> preserves (stays self) (m_pre_setup_shared M self)
      \<and> (\<forall>args. preserves (stays self) (m_setup M self args))
      \<and> preserves (stays self) (m_post_setup M self)
      \<and> preserves (stays self) (m_post_setup_shared M self))"

text \<open>The phases of one call in the order of \<^verbatim>\<open>setup\<close>; \<open>first\<close> says that
  \<^verbatim>\<open>is_setup\<close> is falsy.\<close>

definition planned :: "bool \<Rightarrow> 'i \<Rightarrow> 'i phase list" where
  "planned first args =
     [PreSetup] @ (if first then [PreSetupShared] else []) @ [Setup args, PostSetup]
       @ (if first then [PostSetupShared] else [])"

text \<open>The phases among the events.\<close>

fun invoked :: "'i event list \<Rightarrow> 'i phase list" where
  "invoked [] = []"
| "invoked (Invoke p # evs) = p # invoked evs"
| "invoked (e # evs) = invoked evs"

text \<open>
  \<open>runs self first c ps\<close>: from a store where \<open>self\<close> exists and is (not) set up as
  \<open>first\<close> says, \<open>c\<close> keeps \<open>self\<close> and its \<^verbatim>\<open>is_setup\<close>, invokes exactly
  the phases \<open>ps\<close> when it returns, and when it raises \<open>e\<close> it has invoked an initial
  part of \<open>ps\<close> whose last phase raised \<open>e\<close>.
\<close>

definition runs ::
  "addr \<Rightarrow> bool \<Rightarrow> (('a block_scheme, 'tf) world, 'i) traced \<Rightarrow> 'i phase list \<Rightarrow> bool" where
  "runs self first c ps =
     (\<forall>w. self < length (objs w) \<and> (\<not> truthy (is_setup (objs w ! self))) = first \<longrightarrow>
        (case c w of (r, w1, t) \<Rightarrow>
           self < length (objs w1) \<and> is_setup (objs w1 ! self) = is_setup (objs w ! self)
           \<and> (r = Inr () \<longrightarrow> t = map Invoke ps)
           \<and> (\<forall>e. r = Inl e \<longrightarrow>
                 (\<exists>qs p rest. t = map Invoke (qs @ [p]) @ [Raised p e]
                    \<and> qs @ p # rest = ps))))"

text \<open>
  Statements about what \<^verbatim>\<open>setup\<close> runs speak of the methods themselves.
  \<open>shared_phase self h u u'\<close>: at the store \<open>u\<close> a shared phase \<open>h\<close> is skipped
  when \<open>self\<close> is set up, and otherwise it is run and returns, leaving \<open>u'\<close>.
\<close>

definition shared_phase ::
  "addr \<Rightarrow> (('a block_scheme, 'tf) world, unit) py \<Rightarrow>
   ('a block_scheme, 'tf) world \<Rightarrow> ('a block_scheme, 'tf) world \<Rightarrow> bool" where
  "shared_phase self h u u' =
     (if truthy (is_setup (objs u ! self)) then u' = u else h u = (Inr (), u'))"

text \<open>
  \<open>phases_return M B self args w w'\<close>: from the store \<open>w\<close>, entering the scope named
  after the block with \<^verbatim>\<open>reuse=is_setup\<close> succeeds, then each phase, run in the
  order of \<^verbatim>\<open>setup\<close> on the store the one before it left, returns, and \<open>w'\<close> is
  the store the last one left, with the scope left and \<^verbatim>\<open>is_setup\<close> set.
\<close>

definition phases_return ::
  "(('a block_scheme, 'tf) world, 'i) methods \<Rightarrow> 'tf backend \<Rightarrow> addr \<Rightarrow> 'i \<Rightarrow>
   ('a block_scheme, 'tf) world \<Rightarrow> ('a block_scheme, 'tf) world \<Rightarrow> bool" where
  "phases_return M B self args w w' =
     (\<exists>t0 w1 w2 w3 w4 w5.
        tf_variable_scope B (name (objs w ! self)) (is_setup (objs w ! self)) (tf w)
          = (Inr (), t0)
      \<and> m_pre_setup M self (w\<lparr>tf := t0\<rparr>) = (Inr (), w1)
      \<and> shared_phase self (m_pre_setup_shared M self) w1 w2
      \<and> m_setup M self args w2 = (Inr (), w3)
      \<and> m_post_setup M self w3 = (Inr (), w4)
      \<and> shared_phase self (m_post_setup_shared M self) w4 w5
      \<and> w' = w5\<lparr>tf := tf_scope_exit B (tf w5),
                   objs := (objs w5)[self := (objs w5 ! self)\<lparr>is_setup := Some True\<rparr>]\<rparr>)"

text \<open>
  \<open>phase_raises M B self args w e w'\<close>: from the store \<open>w\<close> the scope is entered, the
  phases before some phase return, and that phase, run on the store they left, raises
  \<open>e\<close>; \<open>w'\<close> is the store it left, with the scope left.
\<close>

definition phase_raises ::
  "(('a block_scheme, 'tf) world, 'i) methods \<Rightarrow> 'tf backend \<Rightarrow> addr \<Rightarrow> 'i \<Rightarrow>
   ('a block_scheme, 'tf) world \<Rightarrow> exn \<Rightarrow> ('a block_scheme, 'tf) world \<Rightarrow> bool" where
  "phase_raises M B self args w e w' =
     (\<exists>t0 wk.
        tf_variable_scope B (name (objs w ! self)) (is_setup (objs w ! self)) (tf w)
          = (Inr (), t0)
      \<and> w' = wk\<lparr>tf := tf_scope_exit B (tf wk)\<rparr>
      \<and> (m_pre_setup M self (w\<lparr>tf := t0\<rparr>) = (Inl e, wk)
         \<or> (\<exists>w1. m_pre_setup M self (w\<lparr>tf := t0\<rparr>) = (Inr (), w1)
               \<and> \<not> truthy (is_setup (objs w1 ! self))
               \<and> m_pre_setup_shared M self w1 = (Inl e, wk))
         \<or> (\<exists>w1 w2. m_pre_setup M self (w\<lparr>tf := t0\<rparr>) = (Inr (), w1)
               \<and> shared_phase self (m_pre_setup_shared M self) w1 w2
               \<and> m_setup M self args w2 = (Inl e, wk))
         \<or> (\<exists>w1 w2 w3. m_pre_setup M self (w\<lparr>tf := t0\<rparr>) = (Inr (), w1)
               \<and> shared_phase self (m_pre_setup_shared M self) w1 w2
               \<and> m_setup M self args w2 = (Inr (), w3)
               \<and> m_post_setup M self w3 = (Inl e, wk))
         \<or> (\<exists>w1 w2 w3 w4. m_pre_setup M self (w\<lparr>tf := t0\<rparr>) = (Inr (), w1)
               \<and> shared_phase self (m_pre_setup_shared M self) w1 w2
               \<and> m_setup M self args w2 = (Inr (), w3)
               \<and> m_post_setup M self w3 = (Inr (), w4)
               \<and> \<not> truthy (is_setup (objs w4 ! self))
               \<and> m_post_setup_shared M self w4 = (Inl e, wk))))"

text \<open>
  \<open>phases_run M B self args reuse first w w'\<close>: from the store \<open>w\<close> the scope
  named after the block is entered with \<^verbatim>\<open>reuse=\<close>\<open>reuse\<close>; then
  \<^verbatim>\<open>_pre_setup\<close>, \<^verbatim>\<open>_setup\<close> and \<^verbatim>\<open>_post_setup\<close> are run and
  return, with \<^verbatim>\<open>_pre_setup_shared\<close> before and \<^verbatim>\<open>_post_setup_shared\<close> after
  them exactly when \<open>first\<close> holds, each on the store the one before it left; \<open>w'\<close>
  is the store the last one left, with the scope left and \<^verbatim>\<open>is_setup\<close> set.
\<close>

definition phases_run ::
  "(('a block_scheme, 'tf) world, 'i) methods \<Rightarrow> 'tf backend \<Rightarrow> addr \<Rightarrow> 'i \<Rightarrow>
   bool option \<Rightarrow> bool \<Rightarrow>
   ('a block_scheme, 'tf) world \<Rightarrow> ('a block_scheme, 'tf) world \<Rightarrow> bool" where
  "phases_run M B self args reuse first w w' =
     (\<exists>t0 w1 w2 w3 w4 w5.
        tf_variable_scope B (name (objs w ! self)) reuse (tf w) = (Inr (), t0)
      \<and> m_pre_setup M self (w\<lparr>tf := t0\<rparr>) = (Inr (), w1)
      \<and> (if first then m_pre_setup_shared M self w1 = (Inr (), w2) else w2 = w1)
      \<and> m_setup M self args w2 = (Inr (), w3)
      \<and> m_post_setup M self w3 = (Inr (), w4)
      \<and> (if first then m_post_setup_shared M self w4 = (Inr (), w5) else w5 = w4)
      \<and> w' = w5\<lparr>tf := tf_scope_exit B (tf w5),
                   objs := (objs w5)[self := (objs w5 ! self)\<lparr>is_setup := Some True\<rparr>]\<rparr>)"

text \<open>
  What a run of a layer's own code leaves alone, seen from the layer \<open>self\<close>: no object
  appears or disappears, every object keeps its \<^verbatim>\<open>is_setup\<close>, its decay, the list
  its \<^verbatim>\<open>var_list\<close> names and, once it has one, a moving-average object; no list
  object appears, and when \<open>self\<close> is set up no list changes at all.
\<close>

definition frame :: "addr \<Rightarrow> 'tf lworld \<Rightarrow> 'tf lworld \<Rightarrow> bool" where
  "frame self w w' =
     (length (objs w') = length (objs w)
      \<and> (\<forall>a. is_setup (objs w' ! a) = is_setup (objs w ! a)
              \<and> var_list (objs w' ! a) = var_list (objs w ! a)
              \<and> moving_average_decay (objs w' ! a) = moving_average_decay (objs w ! a)
              \<and> (moving_averages (objs w ! a) \<noteq> None \<longrightarrow>
                     moving_averages (objs w' ! a) \<noteq> None))
      \<and> length (pylists w') = length (pylists w)
      \<and> (truthy (is_setup (objs w ! self)) \<longrightarrow> pylists w' = pylists w))"



text \<open>Stores used to evaluate the definitions.\<close>

definition trained_world :: "real option \<Rightarrow> graph lworld" where
  "trained_world d =
     fst (snd (Block_setup (ProcessingLayer_methods ref_backend one_weight) ref_backend 0 ()
                 (layer_world d)))"

text \<open>
  The layer that rejects a bad input: the store after a first \<^verbatim>\<open>setup\<close> with a
  bad input, and the store after a second \<^verbatim>\<open>setup\<close>, with a good one.
\<close>

definition failed_world :: "graph lworld" where
  "failed_world =
     fst (snd (Block_setup (ProcessingLayer_methods ref_backend flaky) ref_backend 0 True
                 (layer_world (Some 0.9))))"

definition retried_world :: "graph lworld" where
  "retried_world =
     fst (snd (Block_setup (ProcessingLayer_methods ref_backend flaky) ref_backend 0 False
                 failed_world))"

definition copied_world :: "real option \<Rightarrow> graph lworld" where
  "copied_world d = snd (get_val_copy 0 (layer_world d))"

definition in_scope :: "graph lworld \<Rightarrow> graph lworld" where
  "in_scope w = snd (tf_op (ref_variable_scope ''fc1'' (is_setup (objs w ! 0))) w)"

section \<open>Properties\<close>

lemmas py_defs = py_return_def py_raise_def py_bind_def py_seq_def py_when_def py_get_def
  log_msg_def tf_op_def modify_obj_def alloc_obj_def alloc_list_def

subsection \<open>Construction\<close>

text \<open>
  C7. Constructing a block whose name is \<^verbatim>\<open>None\<close> or empty is fatal: the
  constructor logs the diagnostic at error level and leaves with
  \<^verbatim>\<open>sys.exit(1)\<close>; no object is added to the store.
\<close>

theorem Block_nameless_is_fatal:
  assumes "name' = None \<or> name' = Some []"
  shows "Block_init cls ds name' bag' w =
           (Inl (SystemExit 1), w\<lparr>glog := glog w @ [(ERROR, name_error_msg cls)]\<rparr>)
       \<and> Block_new cls ds name' bag' w =
           (Inl (SystemExit 1), w\<lparr>glog := glog w @ [(ERROR, name_error_msg cls)]\<rparr>)
       \<and> objs (snd (Block_new cls ds name' bag' w)) = objs w"
  using assms by (auto simp: Block_init_def Block_new_def truthy_str_def py_defs)

theorem Block_nameless_is_fatal_witness:
  "(Some [] = None \<or> Some [] = Some ([] :: string))
   \<and> Block_new ''Block'' True (Some []) None world0 =
       (Inl (SystemExit 1), world0\<lparr>glog := [(ERROR, name_error_msg ''Block'')]\<rparr>)
   \<and> objs (snd (Block_new ''Block'' True (Some []) None (world0 :: (block, graph) world))) = []"
  using Block_nameless_is_fatal [of "Some []" "''Block''" True None "world0 :: (block, graph) world"]
  by (simp add: world0_def)

text \<open>
  C6. A decay that is not \<^verbatim>\<open>None\<close> and lies outside \<open>[0.5, 1)\<close> makes the
  construction fail, so that no layer is produced; for a layer with a name the failure
  is the assertion error of \<^verbatim>\<open>ProcessingLayer.__init__\<close>. A decay that is
  \<^verbatim>\<open>None\<close> or in \<open>[0.5, 1)\<close> gives, for a layer with a name, a new layer that
  stores it.
\<close>

theorem ProcessingLayer_decay_checked:
  "(d = Some x \<and> (x < 0.5 \<or> 1 \<le> x) \<longrightarrow>
      (\<exists>e. fst (ProcessingLayer_new cls fmt d ds name' bag' w) = Inl e)
    \<and> objs (snd (ProcessingLayer_new cls fmt d ds name' bag' w)) = objs w
    \<and> (name' = Some n \<and> n \<noteq> [] \<longrightarrow>
         fst (ProcessingLayer_new cls fmt d ds name' bag' w) =
           Inl (AssertionError (decay_error_msg (fmt x)))))
 \<and> (name' = Some n \<and> n \<noteq> [] \<and> (d = None \<or> (d = Some x \<and> 0.5 \<le> x \<and> x < 1)) \<longrightarrow>
      fst (ProcessingLayer_new cls fmt d ds name' bag' w) = Inr (length (objs w))
    \<and> length (objs (snd (ProcessingLayer_new cls fmt d ds name' bag' w)))
        = Suc (length (objs w))
    \<and> moving_average_decay
        (objs (snd (ProcessingLayer_new cls fmt d ds name' bag' w)) ! length (objs w)) = d)"
  by (auto simp: ProcessingLayer_new_def ProcessingLayer_init_def Block_init_def truthy_str_def
      decay_ok_def py_defs)

theorem ProcessingLayer_decay_checked_witness:
  "fst (ProcessingLayer_new ''ProcessingLayer'' no_repr (Some 1) True (Some ''fc1'') None
     (world0 :: graph lworld)) = Inl (AssertionError (decay_error_msg (no_repr 1)))
   \<and> objs (snd (ProcessingLayer_new ''ProcessingLayer'' no_repr (Some 1) True (Some ''fc1'') None
     (world0 :: graph lworld))) = []
   \<and> fst (ProcessingLayer_new ''ProcessingLayer'' no_repr (Some 0.5) True (Some ''fc1'') None
     (world0 :: graph lworld)) = Inr 0
   \<and> moving_average_decay
       (objs (snd (ProcessingLayer_new ''ProcessingLayer'' no_repr (Some 0.5) True (Some ''fc1'')
          None (world0 :: graph lworld))) ! 0) = Some 0.5
   \<and> fst (ProcessingLayer_new ''ProcessingLayer'' no_repr None True (Some ''fc1'') None
     (world0 :: graph lworld)) = Inr 0
   \<and> moving_average_decay
       (objs (snd (ProcessingLayer_new ''ProcessingLayer'' no_repr None True (Some ''fc1'')
          None (world0 :: graph lworld))) ! 0) = None"
  using ProcessingLayer_decay_checked [where name' = "Some ''fc1''" and n = "''fc1''"
          and d = "Some 1" and x = 1 and cls = "''ProcessingLayer''" and fmt = no_repr
          and ds = True and bag' = None and w = "world0 :: graph lworld"]
        ProcessingLayer_decay_checked [where name' = "Some ''fc1''" and n = "''fc1''"
          and d = "Some 0.5" and x = "0.5" and cls = "''ProcessingLayer''" and fmt = no_repr
          and ds = True and bag' = None and w = "world0 :: graph lworld"]
        ProcessingLayer_decay_checked [where name' = "Some ''fc1''" and n = "''fc1''"
          and d = None and x = "0.5" and cls = "''ProcessingLayer''" and fmt = no_repr
          and ds = True and bag' = None and w = "world0 :: graph lworld"]
  by (simp add: world0_def)

subsection \<open>Validation copies\<close>

text \<open>
  C2. For a layer \<open>l\<close> that is not in validation mode, \<^verbatim>\<open>get_val_copy\<close> returns a
  new object \<open>c\<close> whose \<^verbatim>\<open>var_list\<close> is the same list object as that of \<open>l\<close> (no
  list is created or changed), whose \<^verbatim>\<open>is_val\<close> is true, and \<open>l\<close> itself is
  unchanged, so its \<^verbatim>\<open>is_val\<close> is still false.
\<close>

theorem get_val_copy_shares_var_list:
  assumes "l < length (objs w)" and "\<not> is_val (objs w ! l)"
  shows "\<exists>c w'. get_val_copy l w = (Inr c, w') \<and> c \<noteq> l \<and> c < length (objs w')
           \<and> var_list (objs w' ! c) = var_list (objs w ! l)
           \<and> pylists w' = pylists w
           \<and> is_val (objs w' ! c)
           \<and> \<not> is_val (objs w' ! l)
           \<and> objs w' ! c = (objs w ! l)\<lparr>is_val := True\<rparr>
           \<and> objs w' ! l = objs w ! l"
  using assms
  by (auto simp: get_val_copy_def get_copy_def set_val_def py_defs nth_append)

theorem get_val_copy_shares_var_list_witness:
  "0 < length (objs (layer_world None)) \<and> \<not> is_val (objs (layer_world None) ! 0)
   \<and> fst (get_val_copy 0 (layer_world None)) = Inr 1
   \<and> var_list (objs (snd (get_val_copy 0 (layer_world None))) ! 1)
       = var_list (objs (layer_world None) ! 0)
   \<and> is_val (objs (snd (get_val_copy 0 (layer_world None))) ! 1)
   \<and> \<not> is_val (objs (snd (get_val_copy 0 (layer_world None))) ! 0)"
proof -
  have h1: "0 < length (objs (layer_world None))"
    by (simp add: layer_world_def ProcessingLayer_new_def ProcessingLayer_init_def
        Block_init_def truthy_str_def decay_ok_def py_defs world0_def)
  have h2: "\<not> is_val (objs (layer_world None) ! 0)"
    by (simp add: layer_world_def ProcessingLayer_new_def ProcessingLayer_init_def
        Block_init_def truthy_str_def decay_ok_def py_defs world0_def)
  have h3: "length (objs (layer_world None)) = 1"
    by (simp add: layer_world_def ProcessingLayer_new_def ProcessingLayer_init_def
        Block_init_def truthy_str_def decay_ok_def py_defs world0_def)
  from get_val_copy_shares_var_list [OF h1 h2] obtain c w' where
    c: "get_val_copy 0 (layer_world None) = (Inr c, w')"
      "var_list (objs w' ! c) = var_list (objs (layer_world None) ! 0)"
      "is_val (objs w' ! c)" "\<not> is_val (objs w' ! 0)"
    by blast
  have "c = 1"
    using c(1) h3 by (simp add: get_val_copy_def get_copy_def set_val_def py_defs)
  with c h1 h2 show ?thesis by simp
qed

subsection \<open>Exponential decay of the learning rate\<close>

lemma exponential_decay_div:
  "exponential_decay base_lr decay_rate steps_per_epoch decay_epoch_num s =
     base_lr * decay_rate ^ (s div (steps_per_epoch * decay_epoch_num))"
proof -
  have "\<lfloor>real s / real (steps_per_epoch * decay_epoch_num)\<rfloor>
          = int (s div (steps_per_epoch * decay_epoch_num))"
    by (rule floor_divide_of_nat_eq)
  then show ?thesis by (simp add: exponential_decay_def del: of_nat_mult)
qed

text \<open>
  C8. The rate at step \<open>s\<close> is
  \<open>base_lr * decay_rate ^ floor (s / (steps_per_epoch * decay_epoch_num))\<close>, where the
  floor of the quotient is the integer quotient: the rate is \<open>base_lr\<close> before the
  first period ends and is multiplied by \<open>decay_rate\<close> each time a period ends. With
  base rate 0.01, decay rate 0.95, 468 steps per epoch and one epoch per decay the rate
  at step 468 is \<open>0.01 * 0.95\<close>, within \<open>0.0001\<close> of \<open>0.0095\<close>. For a learning
  rate (a base rate that is not negative) and a decay rate in \<open>(0, 1]\<close> the rate does
  not increase with the step.
\<close>

theorem exponential_decay_schedule:
  "exponential_decay base_lr decay_rate steps_per_epoch decay_epoch_num s =
     base_lr * decay_rate ^ nat \<lfloor>real s / real (steps_per_epoch * decay_epoch_num)\<rfloor>
   \<and> exponential_decay base_lr decay_rate steps_per_epoch decay_epoch_num s =
     base_lr * decay_rate ^ (s div (steps_per_epoch * decay_epoch_num))
   \<and> (s < steps_per_epoch * decay_epoch_num \<longrightarrow>
        exponential_decay base_lr decay_rate steps_per_epoch decay_epoch_num s = base_lr)
   \<and> (0 < steps_per_epoch * decay_epoch_num \<longrightarrow>
        exponential_decay base_lr decay_rate steps_per_epoch decay_epoch_num
          (s + steps_per_epoch * decay_epoch_num)
        = decay_rate
            * exponential_decay base_lr decay_rate steps_per_epoch decay_epoch_num s)
   \<and> exponential_decay 0.01 0.95 468 1 468 = 0.01 * 0.95
   \<and> \<bar>exponential_decay 0.01 0.95 468 1 468 - 0.0095\<bar> \<le> 0.0001
   \<and> (0 \<le> base_lr \<and> 0 < decay_rate \<and> decay_rate \<le> 1 \<and> s \<le> s' \<longrightarrow>
        exponential_decay base_lr decay_rate steps_per_epoch decay_epoch_num s'
          \<le> exponential_decay base_lr decay_rate steps_per_epoch decay_epoch_num s)"
proof (intro conjI impI)
  show "exponential_decay base_lr decay_rate steps_per_epoch decay_epoch_num s =
     base_lr * decay_rate ^ nat \<lfloor>real s / real (steps_per_epoch * decay_epoch_num)\<rfloor>"
    by (simp only: exponential_decay_def)
next
  show "exponential_decay base_lr decay_rate steps_per_epoch decay_epoch_num s =
     base_lr * decay_rate ^ (s div (steps_per_epoch * decay_epoch_num))"
    by (rule exponential_decay_div)
next
  assume "s < steps_per_epoch * decay_epoch_num"
  then show "exponential_decay base_lr decay_rate steps_per_epoch decay_epoch_num s = base_lr"
    by (simp add: exponential_decay_div)
next
  assume "0 < steps_per_epoch * decay_epoch_num"
  then have "(s + steps_per_epoch * decay_epoch_num) div (steps_per_epoch * decay_epoch_num)
               = Suc (s div (steps_per_epoch * decay_epoch_num))"
    by simp
  then show "exponential_decay base_lr decay_rate steps_per_epoch decay_epoch_num
          (s + steps_per_epoch * decay_epoch_num)
        = decay_rate
            * exponential_decay base_lr decay_rate steps_per_epoch decay_epoch_num s"
    by (simp only: exponential_decay_div power_Suc) simp
next
  show "exponential_decay 0.01 0.95 468 1 468 = 0.01 * 0.95"
    by (simp add: exponential_decay_div)
next
  show "\<bar>exponential_decay 0.01 0.95 468 1 468 - 0.0095\<bar> \<le> 0.0001"
    by (simp add: exponential_decay_div)
next
  assume h: "0 \<le> base_lr \<and> 0 < decay_rate \<and> decay_rate \<le> 1 \<and> s \<le> s'"
  then have "s div (steps_per_epoch * decay_epoch_num)
               \<le> s' div (steps_per_epoch * decay_epoch_num)"
    by (simp add: div_le_mono)
  with h have "decay_rate ^ (s' div (steps_per_epoch * decay_epoch_num))
                 \<le> decay_rate ^ (s div (steps_per_epoch * decay_epoch_num))"
    by (simp add: power_decreasing)
  with h show "exponential_decay base_lr decay_rate steps_per_epoch decay_epoch_num s'
          \<le> exponential_decay base_lr decay_rate steps_per_epoch decay_epoch_num s"
    by (simp add: exponential_decay_div mult_left_mono)
qed

theorem exponential_decay_schedule_witness:
  "(467 :: nat) < 468 * 1 \<and> (0 :: nat) < 468 * 1
   \<and> (0 :: real) \<le> 0.01 \<and> (0 :: real) < 0.95 \<and> (0.95 :: real) \<le> 1 \<and> (467 :: nat) \<le> 900
   \<and> exponential_decay 0.01 0.95 468 1 467 = 0.01
   \<and> exponential_decay 0.01 0.95 468 1 (467 + 468 * 1)
       = 0.95 * exponential_decay 0.01 0.95 468 1 467
   \<and> exponential_decay 0.01 0.95 468 1 900 \<le> exponential_decay 0.01 0.95 468 1 467"
  using exponential_decay_schedule [where steps_per_epoch = 468 and decay_epoch_num = 1
      and base_lr = "0.01" and decay_rate = "0.95" and s = 467 and s' = 900]
  by simp

subsection \<open>The order of the phases\<close>

lemma preservesD: "preserves R m \<Longrightarrow> m w = (r, w1) \<Longrightarrow> R w w1"
  by (auto simp: preserves_def dest: spec [of _ w])

lemma runsD:
  assumes "runs self first c ps" and "self < length (objs w)"
    and "(\<not> truthy (is_setup (objs w ! self))) = first" and "c w = (r, w1, t)"
  shows "self < length (objs w1)"
    and "is_setup (objs w1 ! self) = is_setup (objs w ! self)"
    and "r = Inr () \<Longrightarrow> t = map Invoke ps"
    and "r = Inl e \<Longrightarrow> \<exists>qs p rest. t = map Invoke (qs @ [p]) @ [Raised p e] \<and> qs @ p # rest = ps"
proof -
  from assms(1) have "self < length (objs w) \<and> (\<not> truthy (is_setup (objs w ! self))) = first \<longrightarrow>
        (case c w of (r, w1, t) \<Rightarrow>
           self < length (objs w1) \<and> is_setup (objs w1 ! self) = is_setup (objs w ! self)
           \<and> (r = Inr () \<longrightarrow> t = map Invoke ps)
           \<and> (\<forall>e. r = Inl e \<longrightarrow>
                 (\<exists>qs p rest. t = map Invoke (qs @ [p]) @ [Raised p e]
                    \<and> qs @ p # rest = ps)))"
    unfolding runs_def by (rule spec)
  with assms(2-4) have *: "self < length (objs w1) \<and> is_setup (objs w1 ! self) = is_setup (objs w ! self)
           \<and> (r = Inr () \<longrightarrow> t = map Invoke ps)
           \<and> (\<forall>e. r = Inl e \<longrightarrow>
                 (\<exists>qs p rest. t = map Invoke (qs @ [p]) @ [Raised p e]
                    \<and> qs @ p # rest = ps))"
    by simp
  from * show "self < length (objs w1)" by simp
  from * show "is_setup (objs w1 ! self) = is_setup (objs w ! self)" by simp
  from * show "r = Inr () \<Longrightarrow> t = map Invoke ps" by simp
  from * show "r = Inl e \<Longrightarrow> \<exists>qs p rest. t = map Invoke (qs @ [p]) @ [Raised p e] \<and> qs @ p # rest = ps"
    by simp
qed

lemma runsI:
  fixes c :: "(('a block_scheme, 'tf) world, 'i) traced"
  assumes "\<And>w r w1 t. self < length (objs w) \<Longrightarrow> (\<not> truthy (is_setup (objs w ! self))) = first
     \<Longrightarrow> c w = (r, w1, t) \<Longrightarrow>
      self < length (objs w1) \<and> is_setup (objs w1 ! self) = is_setup (objs w ! self)
           \<and> (r = Inr () \<longrightarrow> t = map Invoke ps)
           \<and> (\<forall>e. r = Inl e \<longrightarrow>
                 (\<exists>qs p rest. t = map Invoke (qs @ [p]) @ [Raised p e]
                    \<and> qs @ p # rest = ps))"
  shows "runs self first c ps"
  unfolding runs_def
proof (intro allI impI)
  fix w :: "('a block_scheme, 'tf) world"
  assume a: "self < length (objs w) \<and> (\<not> truthy (is_setup (objs w ! self))) = first"
  obtain r w1 t where c: "c w = (r, w1, t)" by (cases "c w")
  from assms [OF _ _ c] a c show "case c w of (r, w1, t) \<Rightarrow>
           self < length (objs w1) \<and> is_setup (objs w1 ! self) = is_setup (objs w ! self)
           \<and> (r = Inr () \<longrightarrow> t = map Invoke ps)
           \<and> (\<forall>e. r = Inl e \<longrightarrow>
                 (\<exists>qs p rest. t = map Invoke (qs @ [p]) @ [Raised p e]
                    \<and> qs @ p # rest = ps))"
    by simp
qed

lemma runs_invoke:
  assumes "preserves (stays self) h"
  shows "runs self first (invoke p h) [p]"
proof (rule runsI)
  fix w r w1 t
  assume v: "self < length (objs w)" and run: "invoke p h w = (r, w1, t)"
  obtain r0 w0 where h: "h w = (r0, w0)" by (cases "h w")
  from preservesD [OF assms h] v
  have k: "self < length (objs w0)" "is_setup (objs w0 ! self) = is_setup (objs w ! self)"
    by (simp_all add: stays_def)
  show "self < length (objs w1) \<and> is_setup (objs w1 ! self) = is_setup (objs w ! self)
        \<and> (r = Inr () \<longrightarrow> t = map Invoke [p])
        \<and> (\<forall>e. r = Inl e \<longrightarrow>
              (\<exists>qs p' rest. t = map Invoke (qs @ [p']) @ [Raised p' e] \<and> qs @ p' # rest = [p]))"
  proof (cases r0)
    case (Inl e0)
    with run h have "r = Inl e0" "w1 = w0" "t = map Invoke ([] @ [p]) @ [Raised p e0]"
      by (simp_all add: invoke_def)
    moreover have "[] @ p # [] = [p]" by simp
    ultimately show ?thesis using k by blast
  next
    case (Inr u)
    with run h have "r = Inr ()" "w1 = w0" "t = [Invoke p]"
      by (simp_all add: invoke_def)
    then show ?thesis using k by simp
  qed
qed

lemma runs_if_not_setup:
  assumes "first \<Longrightarrow> runs self first c ps"
  shows "runs self first (if_not_setup self c) (if first then ps else [])"
proof (rule runsI)
  fix w r w1 t
  assume v: "self < length (objs w)"
    and f: "(\<not> truthy (is_setup (objs w ! self))) = first"
    and run: "if_not_setup self c w = (r, w1, t)"
  show "self < length (objs w1) \<and> is_setup (objs w1 ! self) = is_setup (objs w ! self)
           \<and> (r = Inr () \<longrightarrow> t = map Invoke (if first then ps else []))
           \<and> (\<forall>e. r = Inl e \<longrightarrow>
                 (\<exists>qs p rest. t = map Invoke (qs @ [p]) @ [Raised p e]
                    \<and> qs @ p # rest = (if first then ps else [])))"
  proof (cases first)
    case True
    with f run have c: "c w = (r, w1, t)" by (simp add: if_not_setup_def)
    from runsD [OF assms [OF True] v f c] True show ?thesis by simp
  next
    case False
    with f run have "r = Inr ()" "w1 = w" "t = []" by (simp_all add: if_not_setup_def)
    with False v show ?thesis by simp
  qed
qed

lemma runs_and_then:
  assumes c1: "runs self first c1 ps1" and c2: "runs self first c2 ps2"
  shows "runs self first (and_then c1 c2) (ps1 @ ps2)"
proof (rule runsI)
  fix w r w2 t
  assume v: "self < length (objs w)"
    and f: "(\<not> truthy (is_setup (objs w ! self))) = first"
    and run: "and_then c1 c2 w = (r, w2, t)"
  obtain r1 w1 t1 where r1: "c1 w = (r1, w1, t1)" by (cases "c1 w")
  note k1 = runsD [OF c1 v f r1]
  show "self < length (objs w2) \<and> is_setup (objs w2 ! self) = is_setup (objs w ! self)
        \<and> (r = Inr () \<longrightarrow> t = map Invoke (ps1 @ ps2))
        \<and> (\<forall>e. r = Inl e \<longrightarrow>
              (\<exists>qs p rest. t = map Invoke (qs @ [p]) @ [Raised p e]
                 \<and> qs @ p # rest = ps1 @ ps2))"
  proof (cases r1)
    case (Inl e1)
    with run r1 have eq: "r = Inl e1" "w2 = w1" "t = t1" by (simp_all add: and_then_def)
    from k1(4) [OF Inl] obtain qs p rest where
      q: "t1 = map Invoke (qs @ [p]) @ [Raised p e1]" "qs @ p # rest = ps1" by blast
    then have "qs @ p # (rest @ ps2) = ps1 @ ps2" by auto
    with q(1) eq have "\<exists>qs p rest. t = map Invoke (qs @ [p]) @ [Raised p e1]
                 \<and> qs @ p # rest = ps1 @ ps2" by blast
    with eq k1(1,2) show ?thesis by simp
  next
    case (Inr u)
    obtain r2 w2' t2 where r2: "c2 w1 = (r2, w2', t2)" by (cases "c2 w1")
    with run r1 Inr have eq: "r = r2" "w2 = w2'" "t = t1 @ t2" by (simp_all add: and_then_def)
    from k1(2) f have f1: "(\<not> truthy (is_setup (objs w1 ! self))) = first" by simp
    note k2 = runsD [OF c2 k1(1) f1 r2]
    from k1(3) Inr have t1: "t1 = map Invoke ps1" by simp
    have "\<forall>e. r = Inl e \<longrightarrow>
              (\<exists>qs p rest. t = map Invoke (qs @ [p]) @ [Raised p e]
                 \<and> qs @ p # rest = ps1 @ ps2)"
    proof (intro allI impI)
      fix e assume "r = Inl e"
      with eq have "r2 = Inl e" by simp
      from k2(4) [OF this] obtain qs p rest where
        q: "t2 = map Invoke (qs @ [p]) @ [Raised p e]" "qs @ p # rest = ps2" by blast
      have "t = map Invoke ((ps1 @ qs) @ [p]) @ [Raised p e]"
        using eq t1 q by simp
      moreover have "(ps1 @ qs) @ p # rest = ps1 @ ps2" using q by simp
      ultimately show "\<exists>qs p rest. t = map Invoke (qs @ [p]) @ [Raised p e]
                 \<and> qs @ p # rest = ps1 @ ps2" by blast
    qed
    moreover have "r = Inr () \<longrightarrow> t = map Invoke (ps1 @ ps2)"
      using eq k2(3) t1 by simp
    ultimately show ?thesis using eq k1(1,2) k2(1,2) by simp
  qed
qed

lemma runs_setup_phases:
  assumes "well_behaved M self"
  shows "runs self first (setup_phases M self args) (planned first args)"
proof -
  from assms have h:
    "preserves (stays self) (m_pre_setup M self)"
    "preserves (stays self) (m_pre_setup_shared M self)"
    "preserves (stays self) (m_setup M self args)"
    "preserves (stays self) (m_post_setup M self)"
    "preserves (stays self) (m_post_setup_shared M self)"
    by (simp_all add: well_behaved_def)
  have "runs self first (setup_phases M self args)
          ([PreSetup] @ (if first then [PreSetupShared] else []) @ [Setup args] @ [PostSetup]
             @ (if first then [PostSetupShared] else []))"
    unfolding setup_phases_def
    by (intro runs_and_then runs_if_not_setup runs_invoke h)
  then show ?thesis by (simp add: planned_def)
qed

lemma invoked_map_Invoke [simp]: "invoked (map Invoke ps @ evs) = ps @ invoked evs"
  by (induction ps) simp_all

lemma Block_setup_run:
  assumes wb: "well_behaved M self" and v: "self < length (objs w)"
    and run: "Block_setup M B self args w = (r, w', evs)"
  shows "self < length (objs w')"
    and "r = Inr () \<Longrightarrow>
           evs = ScopeEnter (name (objs w ! self)) (is_setup (objs w ! self))
                   # map Invoke (planned (\<not> truthy (is_setup (objs w ! self))) args) @ [ScopeExit]
           \<and> is_setup (objs w' ! self) = Some True"
    and "r = Inl e \<Longrightarrow>
           is_setup (objs w' ! self) = is_setup (objs w ! self)
           \<and> (evs = [] \<or>
               (\<exists>qs p rest. evs = ScopeEnter (name (objs w ! self)) (is_setup (objs w ! self))
                     # map Invoke (qs @ [p]) @ [Raised p e, ScopeExit]
                  \<and> qs @ p # rest = planned (\<not> truthy (is_setup (objs w ! self))) args))"
proof -
  let ?scope = "name (objs w ! self)" and ?reuse = "is_setup (objs w ! self)"
  obtain r0 t0 where enter: "tf_variable_scope B ?scope ?reuse (tf w) = (r0, t0)"
    by (cases "tf_variable_scope B ?scope ?reuse (tf w)")
  have "self < length (objs w')
    \<and> (r = Inr () \<longrightarrow>
           evs = ScopeEnter ?scope ?reuse
                   # map Invoke (planned (\<not> truthy ?reuse) args) @ [ScopeExit]
           \<and> is_setup (objs w' ! self) = Some True)
    \<and> (\<forall>e. r = Inl e \<longrightarrow>
           is_setup (objs w' ! self) = ?reuse
           \<and> (evs = [] \<or>
               (\<exists>qs p rest. evs = ScopeEnter ?scope ?reuse
                     # map Invoke (qs @ [p]) @ [Raised p e, ScopeExit]
                  \<and> qs @ p # rest = planned (\<not> truthy ?reuse) args)))"
  proof (cases r0)
    case (Inl e0)
    with run enter have "r = Inl e0" "w' = w\<lparr>tf := t0\<rparr>" "evs = []"
      by (simp_all add: Block_setup_def Let_def)
    with v show ?thesis by simp
  next
    case (Inr u)
    let ?w0 = "w\<lparr>tf := t0\<rparr>"
    obtain r1 w1 tr where body: "setup_phases M self args ?w0 = (r1, w1, tr)"
      by (cases "setup_phases M self args ?w0")
    have v0: "self < length (objs ?w0)" using v by simp
    have f0: "(\<not> truthy (is_setup (objs ?w0 ! self))) = (\<not> truthy ?reuse)" by simp
    note k = runsD [OF runs_setup_phases [OF wb] v0 f0 body]
    let ?w2 = "w1\<lparr>tf := tf_scope_exit B (tf w1)\<rparr>"
    show ?thesis
    proof (cases r1)
      case (Inl e1)
      with run enter Inr body have eq: "r = Inl e1" "w' = ?w2"
        "evs = ScopeEnter ?scope ?reuse # tr @ [ScopeExit]"
        by (simp_all add: Block_setup_def Let_def)
      from k(4) [OF Inl] obtain qs p rest where
        q: "tr = map Invoke (qs @ [p]) @ [Raised p e1]"
           "qs @ p # rest = planned (\<not> truthy ?reuse) args" by blast
      from q(1) eq(3) have "evs = ScopeEnter ?scope ?reuse
                     # map Invoke (qs @ [p]) @ [Raised p e1, ScopeExit]" by simp
      with q(2) have "\<exists>qs p rest. evs = ScopeEnter ?scope ?reuse
                     # map Invoke (qs @ [p]) @ [Raised p e1, ScopeExit]
                  \<and> qs @ p # rest = planned (\<not> truthy ?reuse) args" by blast
      with eq k(1,2) show ?thesis by simp
    next
      case (Inr u1)
      with run enter \<open>r0 = Inr u\<close> body have eq: "r = Inr ()"
        "w' = ?w2\<lparr>objs := (objs ?w2)[self := (objs ?w2 ! self)\<lparr>is_setup := Some True\<rparr>]\<rparr>"
        "evs = ScopeEnter ?scope ?reuse # tr @ [ScopeExit]"
        by (simp_all add: Block_setup_def Let_def)
      from k(3) Inr have "tr = map Invoke (planned (\<not> truthy ?reuse) args)" by simp
      with eq k(1) show ?thesis by simp
    qed
  qed
  then show "self < length (objs w')"
    and "r = Inr () \<Longrightarrow>
           evs = ScopeEnter ?scope ?reuse
                   # map Invoke (planned (\<not> truthy ?reuse) args) @ [ScopeExit]
           \<and> is_setup (objs w' ! self) = Some True"
    and "r = Inl e \<Longrightarrow>
           is_setup (objs w' ! self) = ?reuse
           \<and> (evs = [] \<or>
               (\<exists>qs p rest. evs = ScopeEnter ?scope ?reuse
                     # map Invoke (qs @ [p]) @ [Raised p e, ScopeExit]
                  \<and> qs @ p # rest = planned (\<not> truthy ?reuse) args))"
    by simp_all
qed

subsection \<open>What the code of a layer leaves alone\<close>

lemma preserves_return: "(\<And>w. R w w) \<Longrightarrow> preserves R (py_return x)"
  by (simp add: preserves_def py_return_def)

lemma preserves_raise: "(\<And>w. R w w) \<Longrightarrow> preserves R (py_raise e)"
  by (simp add: preserves_def py_raise_def)

lemma preserves_get: "(\<And>w. R w w) \<Longrightarrow> preserves R (py_get g)"
  by (simp add: preserves_def py_get_def)

lemma preserves_bind:
  assumes trans: "\<And>a b c. R a b \<Longrightarrow> R b c \<Longrightarrow> R a c"
    and m: "preserves R m" and f: "\<And>x. preserves R (f x)"
  shows "preserves R (py_bind m f)"
  unfolding preserves_def
proof
  fix w
  obtain r w1 where mw: "m w = (r, w1)" by (cases "m w")
  from preservesD [OF m mw] have 1: "R w w1" .
  show "R w (snd (py_bind m f w))"
  proof (cases r)
    case (Inl e)
    with mw 1 show ?thesis by (simp add: py_bind_def)
  next
    case (Inr x)
    obtain r2 w2 where fw: "f x w1 = (r2, w2)" by (cases "f x w1")
    from preservesD [OF f fw] have "R w1 w2" .
    with 1 have "R w w2" by (rule trans)
    with mw Inr fw show ?thesis by (simp add: py_bind_def)
  qed
qed

lemma preserves_seq:
  assumes "\<And>a b c. R a b \<Longrightarrow> R b c \<Longrightarrow> R a c" and "preserves R m" and "preserves R n"
  shows "preserves R (py_seq m n)"
  unfolding py_seq_def using assms by (rule preserves_bind)

lemma preserves_when:
  assumes "\<And>w. R w w" and "c \<Longrightarrow> preserves R m"
  shows "preserves R (py_when c m)"
  using assms by (simp add: py_when_def preserves_return)

lemma preserves_for:
  assumes refl: "\<And>w. R w w" and trans: "\<And>a b c. R a b \<Longrightarrow> R b c \<Longrightarrow> R a c"
    and f: "\<And>x. preserves R (f x)"
  shows "preserves R (py_for xs f)"
proof (induction xs)
  case Nil
  show ?case by (simp add: preserves_return refl)
next
  case (Cons x xs)
  show ?case by (simp, rule preserves_seq [where R = R, OF trans f Cons.IH])
qed

lemma preserves_tf_op:
  assumes "\<And>w t. R w (w\<lparr>tf := t\<rparr>)"
  shows "preserves R (tf_op g)"
  using assms by (simp add: preserves_def tf_op_def split: prod.splits)

lemma preserves_log_msg:
  assumes "\<And>w l. R w (w\<lparr>glog := l\<rparr>)"
  shows "preserves R (log_msg lv s)"
  using assms by (simp add: preserves_def log_msg_def)

lemma preserves_with_scope:
  assumes trans: "\<And>a b c. R a b \<Longrightarrow> R b c \<Longrightarrow> R a c"
    and tfR: "\<And>w t. R w (w\<lparr>tf := t\<rparr>)" and body: "preserves R body"
  shows "preserves R (py_with_scope B scope reuse body)"
  unfolding py_with_scope_def
proof (rule preserves_bind)
  show "\<And>a b c. R a b \<Longrightarrow> R b c \<Longrightarrow> R a c" by (rule trans)
next
  show "preserves R (tf_op (tf_variable_scope B scope reuse))"
    by (rule preserves_tf_op) (rule tfR)
next
  fix x :: unit
  show "preserves R (\<lambda>w. case body w of (r, w1) \<Rightarrow> (r, w1\<lparr>tf := tf_scope_exit B (tf w1)\<rparr>))"
    unfolding preserves_def
  proof
    fix w
    obtain r w1 where b: "body w = (r, w1)" by (cases "body w")
    from preservesD [OF body b] have "R w w1" .
    moreover have "R w1 (w1\<lparr>tf := tf_scope_exit B (tf w1)\<rparr>)" by (rule tfR)
    ultimately have "R w (w1\<lparr>tf := tf_scope_exit B (tf w1)\<rparr>)" by (rule trans)
    with b show "R w (snd (case body w of (r, w1) \<Rightarrow> (r, w1\<lparr>tf := tf_scope_exit B (tf w1)\<rparr>)))"
      by simp
  qed
qed

lemma nth_list_update_any:
  "(xs[i := v]) ! a = (if a = i \<and> i < length xs then v else xs ! a)"
  by (cases "i < length xs") (auto simp: nth_list_update list_update_beyond)

lemma frame_refl: "frame self w w"
  by (simp add: frame_def)

lemma frame_trans: "frame self a b \<Longrightarrow> frame self b c \<Longrightarrow> frame self a c"
  by (simp add: frame_def)

lemma frame_tf: "frame self w (w\<lparr>tf := t\<rparr>)"
  by (simp add: frame_def)

lemma frame_glog: "frame self w (w\<lparr>glog := l\<rparr>)"
  by (simp add: frame_def)

lemma frame_modify_obj:
  assumes "\<And>ob. is_setup (g ob) = is_setup ob \<and> var_list (g ob) = var_list ob
     \<and> moving_average_decay (g ob) = moving_average_decay ob
     \<and> (moving_averages ob \<noteq> None \<longrightarrow> moving_averages (g ob) \<noteq> None)"
  shows "preserves (frame self) (modify_obj a g)"
  using assms by (simp add: preserves_def modify_obj_def frame_def nth_list_update_any)

lemma frame_bind:
  assumes "preserves (frame self) m" and "\<And>x. preserves (frame self) (f x)"
  shows "preserves (frame self) (py_bind m f)"
proof (rule preserves_bind)
  show "\<And>a b c. frame self a b \<Longrightarrow> frame self b c \<Longrightarrow> frame self a c"
    by (rule frame_trans)
qed (fact assms)+

lemma frame_seq:
  assumes "preserves (frame self) m" and "preserves (frame self) n"
  shows "preserves (frame self) (py_seq m n)"
  unfolding py_seq_def using assms by (simp add: frame_bind)

lemma frame_for:
  assumes "\<And>x. preserves (frame self) (f x)"
  shows "preserves (frame self) (py_for xs f)"
proof (rule preserves_for)
  show "\<And>w. frame self w w" by (rule frame_refl)
  show "\<And>a b c. frame self a b \<Longrightarrow> frame self b c \<Longrightarrow> frame self a c"
    by (rule frame_trans)
qed (fact assms)

lemma frame_with_scope:
  assumes "preserves (frame self) body"
  shows "preserves (frame self) (py_with_scope B scope reuse body)"
proof (rule preserves_with_scope)
  show "\<And>a b c. frame self a b \<Longrightarrow> frame self b c \<Longrightarrow> frame self a c"
    by (rule frame_trans)
  show "\<And>w t. frame self w (w\<lparr>tf := t\<rparr>)" by (rule frame_tf)
qed (fact assms)

lemmas frame_intros =
  preserves_return [where R = "frame self", OF frame_refl]
  preserves_raise [where R = "frame self", OF frame_refl]
  preserves_get [where R = "frame self", OF frame_refl]
  frame_bind [where self = self]
  frame_seq [where self = self]
  preserves_when [where R = "frame self", OF frame_refl]
  frame_for [where self = self]
  preserves_tf_op [where R = "frame self", OF frame_tf]
  preserves_log_msg [where R = "frame self", OF frame_glog]
  frame_with_scope [where self = self]
  for self

lemma frame_var_summary: "preserves (frame self) (var_summary B tag var)"
  unfolding var_summary_def
  by (auto intro!: frame_intros split: option.splits)

lemma frame_data_summary: "preserves (frame self) (data_summary B d coll)"
  unfolding data_summary_def
  by (auto intro!: frame_intros)

lemma frame_pre_setup_shared:
  "preserves (frame self) (ProcessingLayer_pre_setup_shared B a)"
  unfolding ProcessingLayer_pre_setup_shared_def
  by (intro frame_intros frame_modify_obj) simp_all

lemma frame_post_setup: "preserves (frame self) (ProcessingLayer_post_setup B a)"
  unfolding ProcessingLayer_post_setup_def Let_def
  by (auto intro!: frame_intros frame_data_summary split: option.splits)

lemma frame_post_setup_shared:
  "preserves (frame self) (ProcessingLayer_post_setup_shared B a)"
  unfolding ProcessingLayer_post_setup_shared_def
  by (auto intro!: frame_intros frame_modify_obj frame_var_summary split: option.splits)

lemma frame_get_variable: "preserves (frame self) (get_variable B self n shape init)"
  unfolding preserves_def
proof
  fix w :: "'a lworld"
  obtain r t where g: "tf_get_variable B n (Some shape) (Some init) (tf w) = (r, t)"
    by (cases "tf_get_variable B n (Some shape) (Some init) (tf w)")
  show "frame self w (snd (get_variable B self n shape init w))"
  proof (cases r)
    case (Inl e)
    with g show ?thesis by (simp add: get_variable_def py_defs frame_def)
  next
    case (Inr var)
    with g show ?thesis
      by (simp add: get_variable_def py_defs frame_def split: option.splits)
  qed
qed

lemma frame_run_body: "preserves (frame self) (run_body B self b)"
proof (induction b)
  case Done
  show ?case by (simp add: frame_intros)
next
  case (GetVariable n shape init k)
  have "preserves (frame self)
          (py_bind (get_variable B self n shape init) (\<lambda>v. run_body B self (k v)))"
  proof (rule preserves_bind)
    show "\<And>a b c. frame self a b \<Longrightarrow> frame self b c \<Longrightarrow> frame self a c"
      by (rule frame_trans)
    show "preserves (frame self) (get_variable B self n shape init)"
      by (rule frame_get_variable)
    show "\<And>v. preserves (frame self) (run_body B self (k v))"
      by (rule GetVariable.IH) simp
  qed
  then show ?case by simp
next
  case (SetData d k)
  show ?case
    by (simp, rule frame_seq, rule frame_modify_obj, simp, rule SetData.IH)
next
  case (SetLoss l k)
  show ?case
    by (simp, rule frame_seq, rule frame_modify_obj, simp, rule SetLoss.IH)
next
  case (Graph f k)
  have "preserves (frame self) (py_bind (tf_op f) (\<lambda>t. run_body B self (k t)))"
  proof (rule preserves_bind)
    show "\<And>a b c. frame self a b \<Longrightarrow> frame self b c \<Longrightarrow> frame self a c"
      by (rule frame_trans)
    show "preserves (frame self) (tf_op f)"
      by (rule preserves_tf_op) (rule frame_tf)
    show "\<And>t. preserves (frame self) (run_body B self (k t))"
      by (rule Graph.IH) simp
  qed
  then show ?case by simp
next
  case (Raise e)
  show ?case by (simp add: frame_intros)
qed

lemma frame_stays: "preserves (frame self) m \<Longrightarrow> preserves (stays self) m"
  by (simp add: preserves_def frame_def stays_def)

lemma well_behaved_ProcessingLayer: "well_behaved (ProcessingLayer_methods B prog) self"
  unfolding well_behaved_def ProcessingLayer_methods_def
  by (simp add: frame_stays frame_pre_setup_shared frame_post_setup frame_post_setup_shared
      frame_run_body Block_pre_setup_def frame_intros)

lemma well_behaved_Block: "well_behaved Block_methods self"
  unfolding well_behaved_def Block_methods_def
  by (simp add: preserves_def stays_def Block_pre_setup_def Block_pre_setup_shared_def
      Block_post_setup_def Block_post_setup_shared_def Block_setup_abstract_def py_defs)

subsection \<open>Block.setup\<close>

lemmas run_defs = layer_world_def trained_world_def in_scope_def copied_world_def
  failed_world_def retried_world_def
  ProcessingLayer_new_def ProcessingLayer_init_def Block_new_def
  Block_init_def truthy_str_def decay_ok_def world0_def graph0_def
  Block_setup_def setup_phases_def and_then_def invoke_def if_not_setup_def truthy_def
  ProcessingLayer_methods_def Block_methods_def Block_pre_setup_def Block_pre_setup_shared_def
  Block_post_setup_def Block_post_setup_shared_def Block_setup_abstract_def
  ProcessingLayer_pre_setup_shared_def
  ProcessingLayer_post_setup_def ProcessingLayer_post_setup_shared_def py_with_scope_def
  data_summary_def var_summary_def last_component_def get_variable_def truthy_decay_def
  data_def loss_def ref_backend_def ref_variable_scope_def ref_get_variable_def
  cur_prefix_def cur_reuse_def one_weight_def dense_def flaky_def no_repr_def
  get_val_copy_def get_copy_def set_val_def str_opt_def Let_def

lemma fresh_layer:
  "decay_ok d \<Longrightarrow> objs (layer_world d) ! 0 = \<lparr>name = ''fc1'', do_summary = True, bag = None, is_setup = None,
         moving_average_decay = d, var_list = 0, is_val = False,
         moving_averages = None, moving_averages_op = None,
         attr_data = None, attr_loss = None\<rparr>"
  by (simp add: run_defs py_defs)

lemma fresh_layer_length: "decay_ok d \<Longrightarrow> length (objs (layer_world d)) = 1"
  by (simp add: run_defs py_defs)

lemma first_setup_returns:
  "fst (Block_setup (ProcessingLayer_methods ref_backend one_weight) ref_backend 0 ()
          (layer_world (Some 0.9))) = Inr ()"
  by (simp add: run_defs py_defs)

lemma second_setup_returns:
  "fst (Block_setup (ProcessingLayer_methods ref_backend one_weight) ref_backend 0 ()
          (trained_world (Some 0.9))) = Inr ()"
  by (simp add: run_defs py_defs)

subsection \<open>Setting a layer up again\<close>

lemma invoke_rel:
  assumes "preserves R h" and "invoke p h w = (r, w1, t)"
  shows "R w w1"
proof -
  obtain r0 w0 where h: "h w = (r0, w0)" by (cases "h w")
  from preservesD [OF assms(1) h] have "R w w0" .
  moreover from assms(2) h have "w1 = w0" by (cases r0) (simp_all add: invoke_def)
  ultimately show ?thesis by simp
qed

lemma if_not_setup_rel:
  assumes "\<And>w. R w w" and "\<And>w r w1 t. c w = (r, w1, t) \<Longrightarrow> R w w1"
    and "if_not_setup self c w = (r, w1, t)"
  shows "R w w1"
  using assms by (auto simp: if_not_setup_def split: if_splits)

lemma and_then_rel:
  assumes trans: "\<And>a b c. R a b \<Longrightarrow> R b c \<Longrightarrow> R a c"
    and c1: "\<And>w r w1 t. c1 w = (r, w1, t) \<Longrightarrow> R w w1"
    and c2: "\<And>w r w1 t. c2 w = (r, w1, t) \<Longrightarrow> R w w1"
    and run: "and_then c1 c2 w = (r, w2, t)"
  shows "R w w2"
proof -
  obtain r1 w1 t1 where r1: "c1 w = (r1, w1, t1)" by (cases "c1 w")
  from c1 [OF r1] have 1: "R w w1" .
  show ?thesis
  proof (cases r1)
    case (Inl e)
    with run r1 have "w2 = w1" by (simp add: and_then_def)
    with 1 show ?thesis by simp
  next
    case (Inr u)
    obtain r2 w2' t2 where r2: "c2 w1 = (r2, w2', t2)" by (cases "c2 w1")
    with run r1 Inr have "w2 = w2'" by (simp add: and_then_def)
    with c2 [OF r2] 1 show ?thesis by (auto intro: trans)
  qed
qed

lemma setup_phases_rel:
  assumes refl: "\<And>w. R w w" and trans: "\<And>a b c. R a b \<Longrightarrow> R b c \<Longrightarrow> R a c"
    and h: "preserves R (m_pre_setup M self)" "preserves R (m_pre_setup_shared M self)"
      "preserves R (m_setup M self args)" "preserves R (m_post_setup M self)"
      "preserves R (m_post_setup_shared M self)"
    and run: "setup_phases M self args w = (r, w1, t)"
  shows "R w w1"
  using run unfolding setup_phases_def
  by (elim and_then_rel [where R = R, rotated 3] if_not_setup_rel [where R = R, rotated 2]
        invoke_rel [where R = R, rotated 1])
     (auto intro: refl trans h)

lemma Block_setup_frame:
  assumes t: "truthy (is_setup (objs w ! self))"
    and run: "Block_setup (ProcessingLayer_methods B prog) B self args w = (r, w', evs)"
  shows "frame self w w'"
proof -
  let ?M = "ProcessingLayer_methods B prog"
  let ?scope = "name (objs w ! self)" and ?reuse = "is_setup (objs w ! self)"
  obtain r0 t0 where enter: "tf_variable_scope B ?scope ?reuse (tf w) = (r0, t0)"
    by (cases "tf_variable_scope B ?scope ?reuse (tf w)")
  let ?w0 = "w\<lparr>tf := t0\<rparr>"
  have f0: "frame self w ?w0" by (rule frame_tf)
  show ?thesis
  proof (cases r0)
    case (Inl e0)
    with run enter have "w' = ?w0" by (simp add: Block_setup_def Let_def)
    with f0 show ?thesis by simp
  next
    case (Inr u)
    obtain r1 w1 tr where body: "setup_phases ?M self args ?w0 = (r1, w1, tr)"
      by (cases "setup_phases ?M self args ?w0")
    have "frame self ?w0 w1"
    proof (rule setup_phases_rel [OF _ _ _ _ _ _ _ body])
      show "\<And>w. frame self w w" by (rule frame_refl)
      show "\<And>a b c. frame self a b \<Longrightarrow> frame self b c \<Longrightarrow> frame self a c"
        by (rule frame_trans)
    qed (simp_all add: ProcessingLayer_methods_def frame_pre_setup_shared frame_post_setup
           frame_post_setup_shared frame_run_body Block_pre_setup_def frame_intros)
    with f0 have f1: "frame self w w1" by (rule frame_trans)
    let ?w2 = "w1\<lparr>tf := tf_scope_exit B (tf w1)\<rparr>"
    from f1 have f2: "frame self w ?w2" by (simp add: frame_def)
    show ?thesis
    proof (cases r1)
      case (Inl e1)
      with run enter Inr body have "w' = ?w2" by (simp add: Block_setup_def Let_def)
      with f2 show ?thesis by simp
    next
      case (Inr u1)
      with run enter \<open>r0 = Inr u\<close> body have
        "w' = ?w2\<lparr>objs := (objs ?w2)[self := (objs ?w2 ! self)\<lparr>is_setup := Some True\<rparr>]\<rparr>"
        by (simp add: Block_setup_def Let_def)
      moreover from f2 t have "is_setup (objs ?w2 ! self) = Some True"
        by (simp add: frame_def truthy_def)
      ultimately show ?thesis using f2
        by (simp add: frame_def nth_list_update_any)
    qed
  qed
qed

text \<open>
  C3. After a call of \<^verbatim>\<open>setup\<close> on a layer has returned, another call with any
  inputs, whether it returns or raises, changes no list object: the list named by
  \<^verbatim>\<open>var_list\<close> is the same object with the same entries. The reason is that
  \<^verbatim>\<open>_get_variable\<close> leaves every list as it is once \<^verbatim>\<open>is_setup\<close> is truthy.
\<close>

theorem setup_again_keeps_var_list:
  assumes "self < length (objs w0)"
    and "Block_setup (ProcessingLayer_methods B prog) B self args0 w0 = (Inr (), w, evs0)"
    and "Block_setup (ProcessingLayer_methods B prog) B self args w = (r, w', evs)"
  shows "truthy (is_setup (objs w ! self))
       \<and> var_list (objs w' ! self) = var_list (objs w ! self)
       \<and> pylists w' ! var_list (objs w' ! self) = pylists w ! var_list (objs w ! self)
       \<and> pylists w' = pylists w
       \<and> (\<forall>n shape init w1. truthy (is_setup (objs w1 ! self)) \<longrightarrow>
             pylists (snd (get_variable B self n shape init w1)) = pylists w1)"
proof -
  from Block_setup_run(2) [OF well_behaved_ProcessingLayer assms(1,2)]
  have t: "truthy (is_setup (objs w ! self))" by (simp add: truthy_def)
  from Block_setup_frame [OF t assms(3)] t
  have "var_list (objs w' ! self) = var_list (objs w ! self)" "pylists w' = pylists w"
    by (simp_all add: frame_def)
  moreover have "\<forall>n shape init w1. truthy (is_setup (objs w1 ! self)) \<longrightarrow>
             pylists (snd (get_variable B self n shape init w1)) = pylists w1"
  proof (intro allI impI)
    fix n shape init and w1 :: "'a lworld"
    assume t1: "truthy (is_setup (objs w1 ! self))"
    obtain r1 w2 where g: "get_variable B self n shape init w1 = (r1, w2)"
      by (cases "get_variable B self n shape init w1")
    from preservesD [OF frame_get_variable g] t1 have "pylists w2 = pylists w1"
      by (simp add: frame_def)
    with g show "pylists (snd (get_variable B self n shape init w1)) = pylists w1" by simp
  qed
  ultimately show ?thesis using t by simp
qed

lemma trained_var_list:
  "pylists (trained_world (Some 0.9)) ! 0 = [Tensor ''fc1/weights'' [2, 3]]"
  by (simp add: run_defs py_defs)

theorem setup_again_keeps_var_list_witness:
  "0 < length (objs (layer_world (Some 0.9)))
   \<and> fst (Block_setup (ProcessingLayer_methods ref_backend one_weight) ref_backend 0 ()
            (layer_world (Some 0.9))) = Inr ()
   \<and> pylists (fst (snd (Block_setup (ProcessingLayer_methods ref_backend one_weight) ref_backend
                          0 () (trained_world (Some 0.9)))))
        ! var_list (objs (fst (snd (Block_setup (ProcessingLayer_methods ref_backend one_weight)
                                     ref_backend 0 () (trained_world (Some 0.9))))) ! 0)
      = [Tensor ''fc1/weights'' [2, 3]]"
proof -
  let ?M = "ProcessingLayer_methods ref_backend one_weight"
  let ?run = "Block_setup ?M ref_backend 0 () (layer_world (Some 0.9))"
  let ?run2 = "Block_setup ?M ref_backend 0 () (trained_world (Some 0.9))"
  have ok: "decay_ok (Some 0.9)" by (simp add: decay_ok_def)
  have v: "0 < length (objs (layer_world (Some 0.9)))" by (simp add: fresh_layer_length [OF ok])
  have run: "?run = (Inr (), trained_world (Some 0.9), snd (snd ?run))"
    using first_setup_returns by (simp add: trained_world_def prod_eq_iff)
  have run2: "?run2 = (fst ?run2, fst (snd ?run2), snd (snd ?run2))" by simp
  have vl: "var_list (objs (trained_world (Some 0.9)) ! 0) = 0"
    by (simp add: run_defs py_defs)
  from setup_again_keeps_var_list [OF v run run2]
  have "pylists (fst (snd ?run2)) ! var_list (objs (fst (snd ?run2)) ! 0)
          = pylists (trained_world (Some 0.9)) ! var_list (objs (trained_world (Some 0.9)) ! 0)"
    by blast
  with vl trained_var_list v first_setup_returns show ?thesis by simp
qed

subsection \<open>The output of a layer\<close>


















lemma invoke_returns:
  assumes "invoke p h w = (Inr (), w1, t)"
  shows "h w = (Inr (), w1)"
proof -
  obtain r0 w0 where h: "h w = (r0, w0)" by (cases "h w")
  with assms show ?thesis by (cases r0) (simp_all add: invoke_def)
qed

lemma and_then_returns:
  assumes "and_then f g w = (Inr (), w2, t)"
  shows "\<exists>w1 t1 t2. f w = (Inr (), w1, t1) \<and> g w1 = (Inr (), w2, t2)"
proof -
  obtain r1 w1 t1 where f: "f w = (r1, w1, t1)" by (cases "f w")
  obtain r2 w2' t2 where g: "g w1 = (r2, w2', t2)" by (cases "g w1")
  from assms f g show ?thesis by (cases r1) (simp_all add: and_then_def)
qed

lemma if_not_setup_returns:
  assumes "if_not_setup self (invoke p h) w = (Inr (), w1, t)"
  shows "if \<not> truthy (is_setup (objs w ! self)) then h w = (Inr (), w1) else w1 = w"
proof (cases "truthy (is_setup (objs w ! self))")
  case True
  with assms show ?thesis by (simp add: if_not_setup_def)
next
  case False
  with assms have "invoke p h w = (Inr (), w1, t)" by (simp add: if_not_setup_def)
  from invoke_returns [OF this] False show ?thesis by simp
qed

lemma setup_phases_returns:
  fixes args :: 'i
  assumes "setup_phases M self args w = (Inr (), w5, t)"
  shows "\<exists>w1 w2 w3 w4.
           m_pre_setup M self w = (Inr (), w1)
         \<and> (if \<not> truthy (is_setup (objs w1 ! self))
              then m_pre_setup_shared M self w1 = (Inr (), w2) else w2 = w1)
         \<and> m_setup M self args w2 = (Inr (), w3)
         \<and> m_post_setup M self w3 = (Inr (), w4)
         \<and> (if \<not> truthy (is_setup (objs w4 ! self))
              then m_post_setup_shared M self w4 = (Inr (), w5) else w5 = w4)"
proof -
  from and_then_returns [OF assms [unfolded setup_phases_def]] obtain w1 ta tb where
    1: "invoke (PreSetup :: 'i phase) (m_pre_setup M self) w = (Inr (), w1, ta)"
    and r1: "and_then (if_not_setup self (invoke PreSetupShared (m_pre_setup_shared M self)))
              (and_then (invoke (Setup args) (m_setup M self args))
              (and_then (invoke PostSetup (m_post_setup M self))
                (if_not_setup self (invoke PostSetupShared (m_post_setup_shared M self)))))
              w1 = (Inr (), w5, tb)" by (elim exE conjE) (rule that)
  from and_then_returns [OF r1] obtain w2 tc td where
    2: "if_not_setup self (invoke (PreSetupShared :: 'i phase) (m_pre_setup_shared M self)) w1
          = (Inr (), w2, tc)"
    and r2: "and_then (invoke (Setup args) (m_setup M self args))
              (and_then (invoke PostSetup (m_post_setup M self))
                (if_not_setup self (invoke PostSetupShared (m_post_setup_shared M self))))
              w2 = (Inr (), w5, td)" by (elim exE conjE) (rule that)
  from and_then_returns [OF r2] obtain w3 te tf' where
    3: "invoke (Setup args) (m_setup M self args) w2 = (Inr (), w3, te)"
    and r3: "and_then (invoke (PostSetup :: 'i phase) (m_post_setup M self))
                (if_not_setup self (invoke PostSetupShared (m_post_setup_shared M self)))
              w3 = (Inr (), w5, tf')" by (elim exE conjE) (rule that)
  from and_then_returns [OF r3] obtain w4 tg th where
    4: "invoke (PostSetup :: 'i phase) (m_post_setup M self) w3 = (Inr (), w4, tg)"
    and 5: "if_not_setup self (invoke (PostSetupShared :: 'i phase) (m_post_setup_shared M self)) w4
              = (Inr (), w5, th)" by (elim exE conjE) (rule that)
  from invoke_returns [OF 1] if_not_setup_returns [OF 2] invoke_returns [OF 3]
    invoke_returns [OF 4] if_not_setup_returns [OF 5]
  show ?thesis by blast
qed

lemma Block_setup_returns:
  assumes "Block_setup M B self args w = (Inr (), w', evs)"
  shows "\<exists>t0 w1 tr.
           tf_variable_scope B (name (objs w ! self)) (is_setup (objs w ! self)) (tf w)
             = (Inr (), t0)
         \<and> setup_phases M self args (w\<lparr>tf := t0\<rparr>) = (Inr (), w1, tr)
         \<and> objs w' = (objs w1)[self := (objs w1 ! self)\<lparr>is_setup := Some True\<rparr>]"
  using assms
  by (auto simp: Block_setup_def Let_def split: prod.splits sum.splits)



subsection \<open>Copies of a layer that was never set up\<close>



subsection \<open>Acquiring a variable\<close>

lemma first_setup_binds_moving_averages:
  assumes v: "self < length (objs w)" and nt: "\<not> truthy (is_setup (objs w ! self))"
    and td: "truthy_decay (moving_average_decay (objs w ! self))"
    and run: "Block_setup (ProcessingLayer_methods B prog) B self args w = (Inr (), w', evs)"
  shows "truthy (is_setup (objs w' ! self))"
    and "moving_average_decay (objs w' ! self) = moving_average_decay (objs w ! self)"
    and "moving_averages (objs w' ! self) \<noteq> None"
proof -
  let ?M = "ProcessingLayer_methods B prog"
  from Block_setup_returns [OF run] obtain t0 wb tr where
    body: "setup_phases ?M self args (w\<lparr>tf := t0\<rparr>) = (Inr (), wb, tr)"
    and w': "objs w' = (objs wb)[self := (objs wb ! self)\<lparr>is_setup := Some True\<rparr>]"
    by (elim exE conjE) (rule that)
  from setup_phases_returns [OF body] obtain w1 w2 w3 w4 where
    1: "m_pre_setup ?M self (w\<lparr>tf := t0\<rparr>) = (Inr (), w1)"
    and 2: "if \<not> truthy (is_setup (objs w1 ! self))
              then m_pre_setup_shared ?M self w1 = (Inr (), w2) else w2 = w1"
    and 3: "m_setup ?M self args w2 = (Inr (), w3)"
    and 4: "m_post_setup ?M self w3 = (Inr (), w4)"
    and 5: "if \<not> truthy (is_setup (objs w4 ! self))
              then m_post_setup_shared ?M self w4 = (Inr (), wb) else wb = w4"
    by (elim exE conjE) (rule that)
  from 1 have e1: "w1 = w\<lparr>tf := t0\<rparr>"
    by (simp add: ProcessingLayer_methods_def Block_pre_setup_def py_defs)
  with 2 nt have p: "ProcessingLayer_pre_setup_shared B self w1 = (Inr (), w2)"
    by (simp add: ProcessingLayer_methods_def)
  from preservesD [OF frame_pre_setup_shared p, of self] e1 v
  have f12: "frame self w1 w2" and v2: "self < length (objs w2)" by (simp_all add: frame_def)
  from p e1 v td have m2: "moving_averages (objs w2 ! self) \<noteq> None"
    by (auto simp: ProcessingLayer_pre_setup_shared_def py_with_scope_def py_defs
        split: prod.splits sum.splits)
  from 3 have "run_body B self (prog args) w2 = (Inr (), w3)"
    by (simp add: ProcessingLayer_methods_def)
  from preservesD [OF frame_run_body this] have f23: "frame self w2 w3" .
  from 4 have "ProcessingLayer_post_setup B self w3 = (Inr (), w4)"
    by (simp add: ProcessingLayer_methods_def)
  from preservesD [OF frame_post_setup this, of self] have f34: "frame self w3 w4" .
  have f4b: "frame self w4 wb"
  proof (cases "truthy (is_setup (objs w4 ! self))")
    case True
    with 5 show ?thesis by (simp add: frame_refl)
  next
    case False
    with 5 have "ProcessingLayer_post_setup_shared B self w4 = (Inr (), wb)"
      by (simp add: ProcessingLayer_methods_def)
    from preservesD [OF frame_post_setup_shared this, of self] show ?thesis .
  qed
  from f12 f23 f34 f4b have f: "frame self w1 wb" "frame self w2 wb"
    by (blast intro: frame_trans)+
  from f(1) e1 v have vb: "self < length (objs wb)"
    and db: "moving_average_decay (objs wb ! self) = moving_average_decay (objs w ! self)"
    by (simp_all add: frame_def)
  from f(2) m2 have mb: "moving_averages (objs wb ! self) \<noteq> None" by (simp add: frame_def)
  from w' vb show "truthy (is_setup (objs w' ! self))" by (simp add: truthy_def)
  from w' vb db show "moving_average_decay (objs w' ! self) = moving_average_decay (objs w ! self)"
    by simp
  from w' vb mb show "moving_averages (objs w' ! self) \<noteq> None" by simp
qed

text \<open>
  C4. Let \<^verbatim>\<open>tf.get_variable\<close> resolve the name to the handle \<open>var\<close>. If
  \<^verbatim>\<open>is_setup\<close> is falsy, \<^verbatim>\<open>_get_variable\<close> appends \<open>var\<close> to the list object
  \<^verbatim>\<open>var_list\<close> and returns \<open>var\<close>. If \<^verbatim>\<open>is_setup\<close> is truthy, no list changes
  and the call returns \<open>var\<close> when no decay is configured, and the moving average of
  \<open>var\<close> (what \<^verbatim>\<open>moving_averages.average\<close> gives) when a decay in \<open>[0.5, 1)\<close>
  is configured; the layer then has its moving-average object, since the first call of
  \<^verbatim>\<open>setup\<close> that returns creates it. No object changes in any case.
\<close>

theorem get_variable_registers_or_reuses:
  fixes B :: "'tf backend"
  assumes "tf_get_variable B n (Some shape) (Some init) (tf w) = (Inr var, t)"
  shows "(\<not> truthy (is_setup (objs w ! self)) \<longrightarrow>
            fst (get_variable B self n shape init w) = Inr (Some var)
          \<and> pylists (snd (get_variable B self n shape init w))
              = (pylists w)[var_list (objs w ! self) := pylists w ! var_list (objs w ! self) @ [var]]
          \<and> (var_list (objs w ! self) < length (pylists w) \<longrightarrow>
               pylists (snd (get_variable B self n shape init w)) ! var_list (objs w ! self)
                 = pylists w ! var_list (objs w ! self) @ [var]))
       \<and> (truthy (is_setup (objs w ! self)) \<and> moving_average_decay (objs w ! self) = None \<longrightarrow>
            fst (get_variable B self n shape init w) = Inr (Some var)
          \<and> pylists (snd (get_variable B self n shape init w)) = pylists w)
       \<and> (truthy (is_setup (objs w ! self)) \<and> moving_average_decay (objs w ! self) = Some d
            \<and> 0.5 \<le> d \<and> d < 1 \<and> moving_averages (objs w ! self) = Some ema \<longrightarrow>
            fst (get_variable B self n shape init w) = Inr (tf_ema_average B ema var t)
          \<and> pylists (snd (get_variable B self n shape init w)) = pylists w)
       \<and> objs (snd (get_variable B self n shape init w)) = objs w
       \<and> (\<forall>(prog :: 'i \<Rightarrow> 'tf body) args0 w0 evs0.
             self < length (objs w0) \<and> \<not> truthy (is_setup (objs w0 ! self))
             \<and> moving_average_decay (objs w0 ! self) = Some d \<and> 0.5 \<le> d \<and> d < 1
             \<and> Block_setup (ProcessingLayer_methods B prog) B self args0 w0 = (Inr (), w, evs0)
             \<longrightarrow> truthy (is_setup (objs w ! self))
                \<and> moving_average_decay (objs w ! self) = Some d
                \<and> moving_averages (objs w ! self) \<noteq> None)"
proof -
  have "\<forall>(prog :: 'i \<Rightarrow> 'tf body) args0 w0 evs0.
             self < length (objs w0) \<and> \<not> truthy (is_setup (objs w0 ! self))
             \<and> moving_average_decay (objs w0 ! self) = Some d \<and> 0.5 \<le> d \<and> d < 1
             \<and> Block_setup (ProcessingLayer_methods B prog) B self args0 w0 = (Inr (), w, evs0)
             \<longrightarrow> truthy (is_setup (objs w ! self))
                \<and> moving_average_decay (objs w ! self) = Some d
                \<and> moving_averages (objs w ! self) \<noteq> None"
  proof (intro allI impI)
    fix prog :: "'i \<Rightarrow> 'tf body" and args0 w0 evs0
    assume h: "self < length (objs w0) \<and> \<not> truthy (is_setup (objs w0 ! self))
             \<and> moving_average_decay (objs w0 ! self) = Some d \<and> 0.5 \<le> d \<and> d < 1
             \<and> Block_setup (ProcessingLayer_methods B prog) B self args0 w0 = (Inr (), w, evs0)"
    then have td: "truthy_decay (moving_average_decay (objs w0 ! self))"
      by (simp add: truthy_decay_def)
    from h first_setup_binds_moving_averages [OF _ _ td, where prog = prog and B = B
        and args = args0 and w' = w and evs = evs0]
    show "truthy (is_setup (objs w ! self))
                \<and> moving_average_decay (objs w ! self) = Some d
                \<and> moving_averages (objs w ! self) \<noteq> None"
      by simp
  qed
  moreover from assms have "(\<not> truthy (is_setup (objs w ! self)) \<longrightarrow>
            fst (get_variable B self n shape init w) = Inr (Some var)
          \<and> pylists (snd (get_variable B self n shape init w))
              = (pylists w)[var_list (objs w ! self) := pylists w ! var_list (objs w ! self) @ [var]]
          \<and> (var_list (objs w ! self) < length (pylists w) \<longrightarrow>
               pylists (snd (get_variable B self n shape init w)) ! var_list (objs w ! self)
                 = pylists w ! var_list (objs w ! self) @ [var]))
       \<and> (truthy (is_setup (objs w ! self)) \<and> moving_average_decay (objs w ! self) = None \<longrightarrow>
            fst (get_variable B self n shape init w) = Inr (Some var)
          \<and> pylists (snd (get_variable B self n shape init w)) = pylists w)
       \<and> (truthy (is_setup (objs w ! self)) \<and> moving_average_decay (objs w ! self) = Some d
            \<and> 0.5 \<le> d \<and> d < 1 \<and> moving_averages (objs w ! self) = Some ema \<longrightarrow>
            fst (get_variable B self n shape init w) = Inr (tf_ema_average B ema var t)
          \<and> pylists (snd (get_variable B self n shape init w)) = pylists w)
       \<and> objs (snd (get_variable B self n shape init w)) = objs w"
    by (auto simp: get_variable_def py_defs truthy_decay_def split: option.splits)
  ultimately show ?thesis by simp
qed

lemma in_scope_fresh:
  "tf_get_variable ref_backend ''weights'' (Some [2, 3]) (Some ''init'')
     (tf (in_scope (layer_world None)))
   = (Inr (Tensor ''fc1/weights'' [2, 3]),
      snd (tf_get_variable ref_backend ''weights'' (Some [2, 3]) (Some ''init'')
             (tf (in_scope (layer_world None)))))"
  by (simp add: run_defs py_defs)

lemma in_scope_trained_None:
  "tf_get_variable ref_backend ''weights'' (Some [2, 3]) (Some ''init'')
     (tf (in_scope (trained_world None)))
   = (Inr (Tensor ''fc1/weights'' [2, 3]), tf (in_scope (trained_world None)))"
  by (simp add: run_defs py_defs)

lemma in_scope_trained_Some:
  "tf_get_variable ref_backend ''weights'' (Some [2, 3]) (Some ''init'')
     (tf (in_scope (trained_world (Some 0.9))))
   = (Inr (Tensor ''fc1/weights'' [2, 3]), tf (in_scope (trained_world (Some 0.9))))"
  by (simp add: run_defs py_defs)

lemma top_level_trained:
  "tf_get_variable ref_backend ''weights'' (Some [2, 3]) (Some ''init'')
     (tf (trained_world (Some 0.9)))
   = (Inr (Tensor ''weights'' [2, 3]),
      snd (tf_get_variable ref_backend ''weights'' (Some [2, 3]) (Some ''init'')
             (tf (trained_world (Some 0.9)))))"
  by (simp add: run_defs py_defs)

theorem get_variable_registers_or_reuses_witness:
  "fst (get_variable ref_backend 0 ''weights'' [2, 3] ''init'' (in_scope (layer_world None)))
     = Inr (Some (Tensor ''fc1/weights'' [2, 3]))
   \<and> pylists (in_scope (layer_world None)) ! 0 = []
   \<and> pylists (snd (get_variable ref_backend 0 ''weights'' [2, 3] ''init''
                     (in_scope (layer_world None)))) ! 0 = [Tensor ''fc1/weights'' [2, 3]]
   \<and> fst (get_variable ref_backend 0 ''weights'' [2, 3] ''init'' (in_scope (trained_world None)))
     = Inr (Some (Tensor ''fc1/weights'' [2, 3]))
   \<and> pylists (snd (get_variable ref_backend 0 ''weights'' [2, 3] ''init''
                     (in_scope (trained_world None)))) = pylists (in_scope (trained_world None))
   \<and> fst (get_variable ref_backend 0 ''weights'' [2, 3] ''init''
            (in_scope (trained_world (Some 0.9))))
     = Inr (Some (Tensor ''fc1/weights/ExponentialMovingAverage'' [2, 3]))
   \<and> pylists (snd (get_variable ref_backend 0 ''weights'' [2, 3] ''init''
                     (in_scope (trained_world (Some 0.9)))))
     = pylists (in_scope (trained_world (Some 0.9)))
   \<and> moving_averages (objs (trained_world (Some 0.9)) ! 0) \<noteq> None"
proof -
  let ?M = "ProcessingLayer_methods ref_backend one_weight"
  let ?run = "Block_setup ?M ref_backend 0 () (layer_world (Some 0.9))"
  have ok: "decay_ok (Some 0.9)" by (simp add: decay_ok_def)
  have a: "\<not> truthy (is_setup (objs (in_scope (layer_world None)) ! 0))"
      "var_list (objs (in_scope (layer_world None)) ! 0) = 0"
      "pylists (in_scope (layer_world None)) = [[]]"
    by (simp_all add: run_defs py_defs)
  have b: "truthy (is_setup (objs (in_scope (trained_world None)) ! 0))
      \<and> moving_average_decay (objs (in_scope (trained_world None)) ! 0) = None"
    by (simp add: run_defs py_defs)
  have c: "truthy (is_setup (objs (in_scope (trained_world (Some 0.9))) ! 0))
      \<and> moving_average_decay (objs (in_scope (trained_world (Some 0.9))) ! 0) = Some 0.9
      \<and> (0.5 :: real) \<le> 0.9 \<and> (0.9 :: real) < 1
      \<and> moving_averages (objs (in_scope (trained_world (Some 0.9))) ! 0) = Some 0"
    by (simp add: run_defs py_defs)
  have avg: "tf_ema_average ref_backend 0 (Tensor ''fc1/weights'' [2, 3])
         (tf (in_scope (trained_world (Some 0.9))))
       = Some (Tensor ''fc1/weights/ExponentialMovingAverage'' [2, 3])"
    by (simp add: run_defs py_defs)
  have run: "?run = (Inr (), trained_world (Some 0.9), snd (snd ?run))"
    using first_setup_returns by (simp add: trained_world_def prod_eq_iff)
  have d: "0 < length (objs (layer_world (Some 0.9)))
      \<and> \<not> truthy (is_setup (objs (layer_world (Some 0.9)) ! 0))
      \<and> moving_average_decay (objs (layer_world (Some 0.9)) ! 0) = Some 0.9
      \<and> (0.5 :: real) \<le> 0.9 \<and> (0.9 :: real) < 1
      \<and> ?run = (Inr (), trained_world (Some 0.9), snd (snd ?run))"
    using run by (simp add: fresh_layer [OF ok] fresh_layer_length [OF ok] truthy_def)
  note t1 = get_variable_registers_or_reuses [OF in_scope_fresh, where self = 0, THEN conjunct1,
      THEN mp, OF a(1)]
  note t2 = get_variable_registers_or_reuses [OF in_scope_trained_None, where self = 0,
      THEN conjunct2, THEN conjunct1, THEN mp, OF b]
  note t3 = get_variable_registers_or_reuses [OF in_scope_trained_Some, where self = 0
      and d = "0.9" and ema = 0, THEN conjunct2, THEN conjunct2, THEN conjunct1, THEN mp, OF c]
  note t5 = get_variable_registers_or_reuses [OF top_level_trained, where self = 0
      and d = "0.9", THEN conjunct2, THEN conjunct2, THEN conjunct2, THEN conjunct2,
      THEN spec, THEN spec, THEN spec, THEN spec, THEN mp, OF d]
  from t1 a have 1: "fst (get_variable ref_backend 0 ''weights'' [2, 3] ''init''
                 (in_scope (layer_world None))) = Inr (Some (Tensor ''fc1/weights'' [2, 3]))"
    "pylists (snd (get_variable ref_backend 0 ''weights'' [2, 3] ''init''
                     (in_scope (layer_world None)))) ! 0 = [Tensor ''fc1/weights'' [2, 3]]"
    by simp_all
  from t2 have 2: "fst (get_variable ref_backend 0 ''weights'' [2, 3] ''init''
                 (in_scope (trained_world None))) = Inr (Some (Tensor ''fc1/weights'' [2, 3]))"
    "pylists (snd (get_variable ref_backend 0 ''weights'' [2, 3] ''init''
                     (in_scope (trained_world None)))) = pylists (in_scope (trained_world None))"
    by simp_all
  from t3 avg have 3: "fst (get_variable ref_backend 0 ''weights'' [2, 3] ''init''
            (in_scope (trained_world (Some 0.9))))
     = Inr (Some (Tensor ''fc1/weights/ExponentialMovingAverage'' [2, 3]))"
    "pylists (snd (get_variable ref_backend 0 ''weights'' [2, 3] ''init''
                     (in_scope (trained_world (Some 0.9)))))
     = pylists (in_scope (trained_world (Some 0.9)))"
    by simp_all
  from t5 have 5: "moving_averages (objs (trained_world (Some 0.9)) ! 0) \<noteq> None" by simp
  from 1 2 3 5 a show ?thesis by simp
qed

subsection \<open>The phases of a call of setup\<close>

lemma Block_setup_returns_store:
  assumes "Block_setup M B self args w = (Inr (), w', evs)"
  shows "\<exists>t0 w5 tr.
           tf_variable_scope B (name (objs w ! self)) (is_setup (objs w ! self)) (tf w)
             = (Inr (), t0)
         \<and> setup_phases M self args (w\<lparr>tf := t0\<rparr>) = (Inr (), w5, tr)
         \<and> w' = w5\<lparr>tf := tf_scope_exit B (tf w5),
                     objs := (objs w5)[self := (objs w5 ! self)\<lparr>is_setup := Some True\<rparr>]\<rparr>"
  using assms
  by (auto simp: Block_setup_def Let_def split: prod.splits sum.splits)

lemma phases_return_if_setup_returns:
  assumes "Block_setup M B self args w = (Inr (), w', evs)"
  shows "phases_return M B self args w w'"
proof -
  from Block_setup_returns_store [OF assms] obtain t0 w5 tr where
    enter: "tf_variable_scope B (name (objs w ! self)) (is_setup (objs w ! self)) (tf w)
              = (Inr (), t0)"
    and body: "setup_phases M self args (w\<lparr>tf := t0\<rparr>) = (Inr (), w5, tr)"
    and w': "w' = w5\<lparr>tf := tf_scope_exit B (tf w5),
                     objs := (objs w5)[self := (objs w5 ! self)\<lparr>is_setup := Some True\<rparr>]\<rparr>"
    by (elim exE conjE) (rule that)
  from setup_phases_returns [OF body] obtain w1 w2 w3 w4 where
    1: "m_pre_setup M self (w\<lparr>tf := t0\<rparr>) = (Inr (), w1)"
    and 2: "if \<not> truthy (is_setup (objs w1 ! self))
              then m_pre_setup_shared M self w1 = (Inr (), w2) else w2 = w1"
    and 3: "m_setup M self args w2 = (Inr (), w3)"
    and 4: "m_post_setup M self w3 = (Inr (), w4)"
    and 5: "if \<not> truthy (is_setup (objs w4 ! self))
              then m_post_setup_shared M self w4 = (Inr (), w5) else w5 = w4"
    by (elim exE conjE) (rule that)
  from 2 have s2: "shared_phase self (m_pre_setup_shared M self) w1 w2"
    by (simp add: shared_phase_def split: if_splits)
  from 5 have s5: "shared_phase self (m_post_setup_shared M self) w4 w5"
    by (simp add: shared_phase_def split: if_splits)
  show ?thesis
    unfolding phases_return_def
    by (intro exI conjI) (rule enter, rule 1, rule s2, rule 3, rule 4, rule s5, rule w')
qed

lemma setup_returns_if_phases_return:
  assumes "phases_return M B self args w u"
  shows "fst (Block_setup M B self args w) = Inr ()"
    and "fst (snd (Block_setup M B self args w)) = u"
proof -
  from assms obtain t0 w1 w2 w3 w4 w5 where
    enter: "tf_variable_scope B (name (objs w ! self)) (is_setup (objs w ! self)) (tf w)
              = (Inr (), t0)"
    and 1: "m_pre_setup M self (w\<lparr>tf := t0\<rparr>) = (Inr (), w1)"
    and 2: "shared_phase self (m_pre_setup_shared M self) w1 w2"
    and 3: "m_setup M self args w2 = (Inr (), w3)"
    and 4: "m_post_setup M self w3 = (Inr (), w4)"
    and 5: "shared_phase self (m_post_setup_shared M self) w4 w5"
    and u: "u = w5\<lparr>tf := tf_scope_exit B (tf w5),
                   objs := (objs w5)[self := (objs w5 ! self)\<lparr>is_setup := Some True\<rparr>]\<rparr>"
    unfolding phases_return_def by (elim exE conjE) (rule that)
  have a: "invoke p (m_pre_setup M self) (w\<lparr>tf := t0\<rparr>) = (Inr (), w1, [Invoke p])" for p :: "'c phase"
    using 1 by (simp add: invoke_def)
  have b: "\<exists>t. if_not_setup self (invoke p (m_pre_setup_shared M self)) w1 = (Inr (), w2, t)"
    for p :: "'c phase"
    using 2 by (auto simp: shared_phase_def if_not_setup_def invoke_def split: if_splits)
  have c: "invoke p (m_setup M self args) w2 = (Inr (), w3, [Invoke p])" for p :: "'c phase"
    using 3 by (simp add: invoke_def)
  have d: "invoke p (m_post_setup M self) w3 = (Inr (), w4, [Invoke p])" for p :: "'c phase"
    using 4 by (simp add: invoke_def)
  have e: "\<exists>t. if_not_setup self (invoke p (m_post_setup_shared M self)) w4 = (Inr (), w5, t)"
    for p :: "'c phase"
    using 5 by (auto simp: shared_phase_def if_not_setup_def invoke_def split: if_splits)
  from b [of PreSetupShared] obtain tb where
    b': "if_not_setup self (invoke PreSetupShared (m_pre_setup_shared M self)) w1
           = (Inr (), w2, tb :: 'c event list)" ..
  from e [of PostSetupShared] obtain te where
    e': "if_not_setup self (invoke PostSetupShared (m_post_setup_shared M self)) w4
           = (Inr (), w5, te :: 'c event list)" ..
  have "\<exists>tr. setup_phases M self args (w\<lparr>tf := t0\<rparr>) = (Inr (), w5, tr)"
    by (simp add: setup_phases_def and_then_def a b' c d e')
  then obtain tr where body: "setup_phases M self args (w\<lparr>tf := t0\<rparr>) = (Inr (), w5, tr)" ..
  from enter body u show "fst (Block_setup M B self args w) = Inr ()"
    and "fst (snd (Block_setup M B self args w)) = u"
    by (simp_all add: Block_setup_def Let_def)
qed

lemma shared_phase_stays:
  assumes "preserves (stays self) h" and "shared_phase self h u u'"
  shows "stays self u u'"
proof (cases "truthy (is_setup (objs u ! self))")
  case True
  with assms(2) show ?thesis by (simp add: shared_phase_def stays_def)
next
  case False
  with assms(2) have "h u = (Inr (), u')" by (simp add: shared_phase_def)
  from preservesD [OF assms(1) this] show ?thesis .
qed

lemma phases_return_run:
  assumes wb: "well_behaved M self" and v: "self < length (objs w)"
    and pr: "phases_return M B self args w w'"
  shows "phases_run M B self args (is_setup (objs w ! self))
           (\<not> truthy (is_setup (objs w ! self))) w w'"
    and "self < length (objs w')" and "is_setup (objs w' ! self) = Some True"
proof -
  from pr obtain t0 w1 w2 w3 w4 w5 where
    enter: "tf_variable_scope B (name (objs w ! self)) (is_setup (objs w ! self)) (tf w)
              = (Inr (), t0)"
    and 1: "m_pre_setup M self (w\<lparr>tf := t0\<rparr>) = (Inr (), w1)"
    and 2: "shared_phase self (m_pre_setup_shared M self) w1 w2"
    and 3: "m_setup M self args w2 = (Inr (), w3)"
    and 4: "m_post_setup M self w3 = (Inr (), w4)"
    and 5: "shared_phase self (m_post_setup_shared M self) w4 w5"
    and w': "w' = w5\<lparr>tf := tf_scope_exit B (tf w5),
                   objs := (objs w5)[self := (objs w5 ! self)\<lparr>is_setup := Some True\<rparr>]\<rparr>"
    unfolding phases_return_def by (elim exE conjE) (rule that)
  from wb have p1: "preserves (stays self) (m_pre_setup M self)"
    and p2: "preserves (stays self) (m_pre_setup_shared M self)"
    and p3: "preserves (stays self) (m_setup M self args)"
    and p4: "preserves (stays self) (m_post_setup M self)"
    and p5: "preserves (stays self) (m_post_setup_shared M self)"
    by (simp_all add: well_behaved_def)
  from preservesD [OF p1 1] v
  have s1: "self < length (objs w1)" "is_setup (objs w1 ! self) = is_setup (objs w ! self)"
    by (simp_all add: stays_def)
  from shared_phase_stays [OF p2 2] s1
  have s2: "self < length (objs w2)" "is_setup (objs w2 ! self) = is_setup (objs w ! self)"
    by (simp_all add: stays_def)
  from preservesD [OF p3 3] s2
  have s3: "self < length (objs w3)" "is_setup (objs w3 ! self) = is_setup (objs w ! self)"
    by (simp_all add: stays_def)
  from preservesD [OF p4 4] s3
  have s4: "self < length (objs w4)" "is_setup (objs w4 ! self) = is_setup (objs w ! self)"
    by (simp_all add: stays_def)
  from shared_phase_stays [OF p5 5] s4
  have s5: "self < length (objs w5)"
    by (simp_all add: stays_def)
  from 2 s1(2)
  have b2: "if \<not> truthy (is_setup (objs w ! self))
              then m_pre_setup_shared M self w1 = (Inr (), w2) else w2 = w1"
    by (simp add: shared_phase_def)
  from 5 s4(2)
  have b5: "if \<not> truthy (is_setup (objs w ! self))
              then m_post_setup_shared M self w4 = (Inr (), w5) else w5 = w4"
    by (simp add: shared_phase_def)
  show "phases_run M B self args (is_setup (objs w ! self))
           (\<not> truthy (is_setup (objs w ! self))) w w'"
    unfolding phases_run_def
    by (intro exI conjI) (rule enter, rule 1, rule b2, rule 3, rule 4, rule b5, rule w')
  from s5 w' show "self < length (objs w')" and "is_setup (objs w' ! self) = Some True"
    by simp_all
qed

lemma setup_returns_phases_run:
  assumes wb: "well_behaved M self" and v: "self < length (objs w)"
    and run: "Block_setup M B self args w = (Inr (), w', evs)"
  shows "phases_run M B self args (is_setup (objs w ! self))
           (\<not> truthy (is_setup (objs w ! self))) w w'"
    and "evs = ScopeEnter (name (objs w ! self)) (is_setup (objs w ! self))
                 # map Invoke (planned (\<not> truthy (is_setup (objs w ! self))) args) @ [ScopeExit]"
    and "self < length (objs w')" and "is_setup (objs w' ! self) = Some True"
proof -
  note pr = phases_return_if_setup_returns [OF run]
  from phases_return_run [OF wb v pr]
  show "phases_run M B self args (is_setup (objs w ! self))
           (\<not> truthy (is_setup (objs w ! self))) w w'"
    and "self < length (objs w')" and "is_setup (objs w' ! self) = Some True" .
  from Block_setup_run(2) [OF wb v run]
  show "evs = ScopeEnter (name (objs w ! self)) (is_setup (objs w ! self))
                 # map Invoke (planned (\<not> truthy (is_setup (objs w ! self))) args) @ [ScopeExit]"
    by simp
qed

text \<open>
  C1. Every call of \<^verbatim>\<open>setup\<close> on a block runs the phases in the order of the
  source. For every method table: the call returns exactly when the scope named after the
  block is entered with \<^verbatim>\<open>reuse=is_setup\<close> and then \<^verbatim>\<open>_pre_setup\<close>,
  \<^verbatim>\<open>_pre_setup_shared\<close> (unless \<^verbatim>\<open>is_setup\<close> is truthy when it is reached),
  \<^verbatim>\<open>_setup\<close> with the inputs, \<^verbatim>\<open>_post_setup\<close> and
  \<^verbatim>\<open>_post_setup_shared\<close> (same test) return, each run on the store the one before
  it left; the store the call leaves is the one the last phase left, with the scope left
  and \<^verbatim>\<open>is_setup\<close> set to \<^verbatim>\<open>True\<close>. When no phase assigns
  \<^verbatim>\<open>is_setup\<close> itself, both shared phases are run exactly when the block was
  never set up before the call, the events of the call are the scope, the phases in this
  order and the end of the scope, and every later call that returns enters the scope
  with \<^verbatim>\<open>reuse=True\<close> and runs \<^verbatim>\<open>_pre_setup\<close>, \<^verbatim>\<open>_setup\<close>,
  \<^verbatim>\<open>_post_setup\<close> only.
\<close>

theorem Block_setup_phase_order:
  fixes M :: "(('a block_scheme, 'tf) world, 'i) methods"
  assumes run: "Block_setup M B self args w = (r, w', evs)"
  shows "(r = Inr () \<longrightarrow> phases_return M B self args w w')
       \<and> (\<forall>u. phases_return M B self args w u \<longrightarrow> r = Inr () \<and> w' = u)
       \<and> (well_behaved M self \<and> self < length (objs w) \<and> r = Inr () \<longrightarrow>
            phases_run M B self args (is_setup (objs w ! self))
              (\<not> truthy (is_setup (objs w ! self))) w w'
          \<and> evs = ScopeEnter (name (objs w ! self)) (is_setup (objs w ! self))
                    # map Invoke (planned (\<not> truthy (is_setup (objs w ! self))) args)
                    @ [ScopeExit]
          \<and> is_setup (objs w' ! self) = Some True
          \<and> (\<forall>args2 w2 evs2. Block_setup M B self args2 w' = (Inr (), w2, evs2) \<longrightarrow>
                phases_run M B self args2 (Some True) False w' w2
              \<and> evs2 = [ScopeEnter (name (objs w' ! self)) (Some True), Invoke PreSetup,
                         Invoke (Setup args2), Invoke PostSetup, ScopeExit]))"
proof -
  have a: "r = Inr () \<longrightarrow> phases_return M B self args w w'"
  proof
    assume "r = Inr ()"
    with run have "Block_setup M B self args w = (Inr (), w', evs)" by simp
    then show "phases_return M B self args w w'" by (rule phases_return_if_setup_returns)
  qed
  have b: "\<forall>u. phases_return M B self args w u \<longrightarrow> r = Inr () \<and> w' = u"
  proof (rule allI, rule impI)
    fix u assume "phases_return M B self args w u"
    from setup_returns_if_phases_return [OF this] run show "r = Inr () \<and> w' = u" by simp
  qed
  have c: "well_behaved M self \<and> self < length (objs w) \<and> r = Inr () \<longrightarrow>
            phases_run M B self args (is_setup (objs w ! self))
              (\<not> truthy (is_setup (objs w ! self))) w w'
          \<and> evs = ScopeEnter (name (objs w ! self)) (is_setup (objs w ! self))
                    # map Invoke (planned (\<not> truthy (is_setup (objs w ! self))) args)
                    @ [ScopeExit]
          \<and> is_setup (objs w' ! self) = Some True
          \<and> (\<forall>args2 w2 evs2. Block_setup M B self args2 w' = (Inr (), w2, evs2) \<longrightarrow>
                phases_run M B self args2 (Some True) False w' w2
              \<and> evs2 = [ScopeEnter (name (objs w' ! self)) (Some True), Invoke PreSetup,
                         Invoke (Setup args2), Invoke PostSetup, ScopeExit])"
  proof (rule impI, elim conjE)
    assume wb: "well_behaved M self" and v: "self < length (objs w)" and r: "r = Inr ()"
    from run r have run': "Block_setup M B self args w = (Inr (), w', evs)" by simp
    note k = setup_returns_phases_run [OF wb v run']
    have again: "\<forall>args2 w2 evs2. Block_setup M B self args2 w' = (Inr (), w2, evs2) \<longrightarrow>
                phases_run M B self args2 (Some True) False w' w2
              \<and> evs2 = [ScopeEnter (name (objs w' ! self)) (Some True), Invoke PreSetup,
                         Invoke (Setup args2), Invoke PostSetup, ScopeExit]"
    proof (intro allI impI)
      fix args2 :: 'i and w2 :: "('a block_scheme, 'tf) world" and evs2 :: "'i event list"
      assume run2: "Block_setup M B self args2 w' = (Inr (), w2, evs2)"
      from setup_returns_phases_run(1,2) [OF wb k(3) run2] k(4)
      show "phases_run M B self args2 (Some True) False w' w2
              \<and> evs2 = [ScopeEnter (name (objs w' ! self)) (Some True), Invoke PreSetup,
                         Invoke (Setup args2), Invoke PostSetup, ScopeExit]"
        by (simp add: truthy_def planned_def)
    qed
    from k(1,2,4) again
    show "phases_run M B self args (is_setup (objs w ! self))
              (\<not> truthy (is_setup (objs w ! self))) w w'
          \<and> evs = ScopeEnter (name (objs w ! self)) (is_setup (objs w ! self))
                    # map Invoke (planned (\<not> truthy (is_setup (objs w ! self))) args)
                    @ [ScopeExit]
          \<and> is_setup (objs w' ! self) = Some True
          \<and> (\<forall>args2 w2 evs2. Block_setup M B self args2 w' = (Inr (), w2, evs2) \<longrightarrow>
                phases_run M B self args2 (Some True) False w' w2
              \<and> evs2 = [ScopeEnter (name (objs w' ! self)) (Some True), Invoke PreSetup,
                         Invoke (Setup args2), Invoke PostSetup, ScopeExit])"
      by (intro conjI)
  qed
  show ?thesis by (intro conjI) (rule a, rule b, rule c)
qed

theorem Block_setup_phase_order_witness:
  "phases_return (ProcessingLayer_methods ref_backend one_weight) ref_backend 0 ()
     (layer_world (Some 0.9)) (trained_world (Some 0.9))
   \<and> phases_run (ProcessingLayer_methods ref_backend one_weight) ref_backend 0 () None True
       (layer_world (Some 0.9)) (trained_world (Some 0.9))
   \<and> snd (snd (Block_setup (ProcessingLayer_methods ref_backend one_weight) ref_backend 0 ()
                 (layer_world (Some 0.9))))
     = [ScopeEnter ''fc1'' None, Invoke PreSetup, Invoke PreSetupShared, Invoke (Setup ()),
        Invoke PostSetup, Invoke PostSetupShared, ScopeExit]
   \<and> objs (layer_world (Some 0.9))
     = [\<lparr>name = ''fc1'', do_summary = True, bag = None, is_setup = None,
         moving_average_decay = Some 0.9, var_list = 0, is_val = False,
         moving_averages = None, moving_averages_op = None,
         attr_data = None, attr_loss = None\<rparr>]
   \<and> objs (trained_world (Some 0.9))
     = [\<lparr>name = ''fc1'', do_summary = True, bag = None, is_setup = Some True,
         moving_average_decay = Some 0.9, var_list = 0, is_val = False,
         moving_averages = Some 0, moving_averages_op = Some ''ExponentialMovingAverage'',
         attr_data = Some (Some (Tensor ''fc1/weights_'' [2, 3])), attr_loss = None\<rparr>]
   \<and> pylists (trained_world (Some 0.9)) = [[Tensor ''fc1/weights'' [2, 3]]]
   \<and> tf (trained_world (Some 0.9))
     = \<lparr>g_scopes = [],
        g_store = [Tensor ''global/global_step'' [], Tensor ''fc1/weights'' [2, 3]],
        g_averaged = [[Tensor ''fc1/weights'' [2, 3]]],
        g_summaries = [(''fc1/weights/activations'', [TRAIN_SUMMARY_COLLECTION]),
                       (''fc1/weights/sparsity'', [TRAIN_SUMMARY_COLLECTION]),
                       (''fc1/weights'', [TRAIN_SUMMARY_COLLECTION]),
                       (''fc1/weights_average'', [TRAIN_SUMMARY_COLLECTION])]\<rparr>
   \<and> fst (Block_setup (ProcessingLayer_methods ref_backend one_weight) ref_backend 0 ()
            (trained_world (Some 0.9))) = Inr ()
   \<and> phases_run (ProcessingLayer_methods ref_backend one_weight) ref_backend 0 () (Some True)
       False (trained_world (Some 0.9))
       (fst (snd (Block_setup (ProcessingLayer_methods ref_backend one_weight) ref_backend 0 ()
                    (trained_world (Some 0.9)))))
   \<and> snd (snd (Block_setup (ProcessingLayer_methods ref_backend one_weight) ref_backend 0 ()
                 (trained_world (Some 0.9))))
     = [ScopeEnter ''fc1'' (Some True), Invoke PreSetup, Invoke (Setup ()), Invoke PostSetup,
        ScopeExit]
   \<and> g_averaged (tf (fst (snd (Block_setup (ProcessingLayer_methods ref_backend one_weight)
                                 ref_backend 0 () (trained_world (Some 0.9))))))
     = [[Tensor ''fc1/weights'' [2, 3]]]"
proof -
  let ?M = "ProcessingLayer_methods ref_backend one_weight"
  let ?w = "layer_world (Some 0.9)" and ?w' = "trained_world (Some 0.9)"
  let ?run = "Block_setup ?M ref_backend 0 () ?w"
  let ?run2 = "Block_setup ?M ref_backend 0 () ?w'"
  have ok: "decay_ok (Some 0.9)" by (simp add: decay_ok_def)
  have run: "?run = (Inr (), ?w', snd (snd ?run))"
    using first_setup_returns by (simp add: trained_world_def prod_eq_iff)
  have run2: "?run2 = (Inr (), fst (snd ?run2), snd (snd ?run2))"
    using second_setup_returns by (simp add: prod_eq_iff)
  have h: "well_behaved ?M 0 \<and> 0 < length (objs ?w) \<and> (Inr () :: exn + unit) = Inr ()"
    by (simp add: well_behaved_ProcessingLayer fresh_layer_length [OF ok])
  have i0: "is_setup (objs ?w ! 0) = None" "name (objs ?w ! 0) = ''fc1''"
    by (simp_all add: fresh_layer [OF ok])
  have n1: "name (objs ?w' ! 0) = ''fc1''"
    by (simp add: run_defs py_defs)
  note t = Block_setup_phase_order [OF run]
  note a = t [THEN conjunct1, THEN mp, OF refl]
  note c = t [THEN conjunct2, THEN conjunct2, THEN mp, OF h]
  note c1 = c [THEN conjunct1]
  note c2 = c [THEN conjunct2, THEN conjunct1]
  note c4 = c [THEN conjunct2, THEN conjunct2, THEN conjunct2, THEN spec, THEN spec, THEN spec,
      THEN mp, OF run2]
  from c1 have 1: "phases_run ?M ref_backend 0 () None True ?w ?w'"
    by (simp add: i0 truthy_def)
  from c2 have 2: "snd (snd ?run)
     = [ScopeEnter ''fc1'' None, Invoke PreSetup, Invoke PreSetupShared, Invoke (Setup ()),
        Invoke PostSetup, Invoke PostSetupShared, ScopeExit]"
    by (simp add: i0 truthy_def planned_def)
  from c4 have 3: "phases_run ?M ref_backend 0 () (Some True) False ?w' (fst (snd ?run2))"
    and 4: "snd (snd ?run2)
     = [ScopeEnter ''fc1'' (Some True), Invoke PreSetup, Invoke (Setup ()), Invoke PostSetup,
        ScopeExit]"
    by (simp_all add: n1)
  have 5: "objs ?w
     = [\<lparr>name = ''fc1'', do_summary = True, bag = None, is_setup = None,
         moving_average_decay = Some 0.9, var_list = 0, is_val = False,
         moving_averages = None, moving_averages_op = None,
         attr_data = None, attr_loss = None\<rparr>]"
    by (simp add: run_defs py_defs)
  have 6: "objs ?w'
     = [\<lparr>name = ''fc1'', do_summary = True, bag = None, is_setup = Some True,
         moving_average_decay = Some 0.9, var_list = 0, is_val = False,
         moving_averages = Some 0, moving_averages_op = Some ''ExponentialMovingAverage'',
         attr_data = Some (Some (Tensor ''fc1/weights_'' [2, 3])), attr_loss = None\<rparr>]"
    by (simp add: run_defs py_defs)
  have 7: "pylists ?w' = [[Tensor ''fc1/weights'' [2, 3]]]"
    by (simp add: run_defs py_defs)
  have 8: "tf ?w'
     = \<lparr>g_scopes = [],
        g_store = [Tensor ''global/global_step'' [], Tensor ''fc1/weights'' [2, 3]],
        g_averaged = [[Tensor ''fc1/weights'' [2, 3]]],
        g_summaries = [(''fc1/weights/activations'', [TRAIN_SUMMARY_COLLECTION]),
                       (''fc1/weights/sparsity'', [TRAIN_SUMMARY_COLLECTION]),
                       (''fc1/weights'', [TRAIN_SUMMARY_COLLECTION]),
                       (''fc1/weights_average'', [TRAIN_SUMMARY_COLLECTION])]\<rparr>"
    by (simp add: run_defs py_defs)
  have 9: "g_averaged (tf (fst (snd ?run2))) = [[Tensor ''fc1/weights'' [2, 3]]]"
    by (simp add: run_defs py_defs)
  show ?thesis
    by (intro conjI) (rule a, rule 1, rule 2, rule 5, rule 6, rule 7, rule 8,
      rule second_setup_returns, rule 3, rule 4, rule 9)
qed

subsection \<open>A phase that raises\<close>

lemma invoke_raises:
  assumes "invoke p h w = (Inl e, w1, t)"
  shows "h w = (Inl e, w1)"
proof -
  obtain r0 w0 where h: "h w = (r0, w0)" by (cases "h w")
  with assms show ?thesis by (cases r0) (simp_all add: invoke_def)
qed

lemma if_not_setup_raises:
  assumes "if_not_setup self (invoke p h) w = (Inl e, w1, t)"
  shows "\<not> truthy (is_setup (objs w ! self)) \<and> h w = (Inl e, w1)"
proof (cases "truthy (is_setup (objs w ! self))")
  case True
  with assms show ?thesis by (simp add: if_not_setup_def)
next
  case False
  with assms have "invoke p h w = (Inl e, w1, t)" by (simp add: if_not_setup_def)
  from invoke_raises [OF this] False show ?thesis by simp
qed

lemma and_then_raises:
  assumes "and_then f g w = (Inl e, w2, t)"
  shows "(\<exists>t1. f w = (Inl e, w2, t1))
       \<or> (\<exists>w1 t1 t2. f w = (Inr (), w1, t1) \<and> g w1 = (Inl e, w2, t2))"
proof -
  obtain r1 w1 t1 where f: "f w = (r1, w1, t1)" by (cases "f w")
  obtain r2 w2' t2 where g: "g w1 = (r2, w2', t2)" by (cases "g w1")
  from assms f g show ?thesis by (cases r1) (auto simp: and_then_def)
qed

lemma if_not_setup_shared_phase:
  assumes "if_not_setup self (invoke p h) u = (Inr (), u', t)"
  shows "shared_phase self h u u'"
  using if_not_setup_returns [OF assms] by (simp add: shared_phase_def split: if_splits)

lemma setup_phases_raises:
  fixes args :: 'i
  assumes "setup_phases M self args w0 = (Inl e, wk, t)"
  shows "m_pre_setup M self w0 = (Inl e, wk)
         \<or> (\<exists>w1. m_pre_setup M self w0 = (Inr (), w1)
               \<and> \<not> truthy (is_setup (objs w1 ! self))
               \<and> m_pre_setup_shared M self w1 = (Inl e, wk))
         \<or> (\<exists>w1 w2. m_pre_setup M self w0 = (Inr (), w1)
               \<and> shared_phase self (m_pre_setup_shared M self) w1 w2
               \<and> m_setup M self args w2 = (Inl e, wk))
         \<or> (\<exists>w1 w2 w3. m_pre_setup M self w0 = (Inr (), w1)
               \<and> shared_phase self (m_pre_setup_shared M self) w1 w2
               \<and> m_setup M self args w2 = (Inr (), w3)
               \<and> m_post_setup M self w3 = (Inl e, wk))
         \<or> (\<exists>w1 w2 w3 w4. m_pre_setup M self w0 = (Inr (), w1)
               \<and> shared_phase self (m_pre_setup_shared M self) w1 w2
               \<and> m_setup M self args w2 = (Inr (), w3)
               \<and> m_post_setup M self w3 = (Inr (), w4)
               \<and> \<not> truthy (is_setup (objs w4 ! self))
               \<and> m_post_setup_shared M self w4 = (Inl e, wk))"
proof -
  let ?rest1 = "and_then (if_not_setup self (invoke PreSetupShared (m_pre_setup_shared M self)))
              (and_then (invoke (Setup args) (m_setup M self args))
              (and_then (invoke PostSetup (m_post_setup M self))
                (if_not_setup self (invoke PostSetupShared (m_post_setup_shared M self)))))"
  let ?rest2 = "and_then (invoke (Setup args) (m_setup M self args))
              (and_then (invoke PostSetup (m_post_setup M self))
                (if_not_setup self (invoke PostSetupShared (m_post_setup_shared M self))))"
  let ?rest3 = "and_then (invoke (PostSetup :: 'i phase) (m_post_setup M self))
                (if_not_setup self (invoke PostSetupShared (m_post_setup_shared M self)))"
  let ?rest4 = "if_not_setup self
                  (invoke (PostSetupShared :: 'i phase) (m_post_setup_shared M self))"
  from and_then_raises [OF assms [unfolded setup_phases_def]]
  consider (a) ta where "invoke (PreSetup :: 'i phase) (m_pre_setup M self) w0 = (Inl e, wk, ta)"
    | (b) w1 ta tb where "invoke (PreSetup :: 'i phase) (m_pre_setup M self) w0 = (Inr (), w1, ta)"
        "?rest1 w1 = (Inl e, wk, tb)"
    by (elim disjE exE conjE) (assumption | erule (1) meta_mp [rotated])+
  then show ?thesis
  proof cases
    case a
    from invoke_raises [OF a] show ?thesis by simp
  next
    case b
    note p1 = invoke_returns [OF b(1)]
    from and_then_raises [OF b(2)]
    consider (c) tc where
        "if_not_setup self (invoke (PreSetupShared :: 'i phase) (m_pre_setup_shared M self)) w1
           = (Inl e, wk, tc)"
      | (d) w2 tc td where
        "if_not_setup self (invoke (PreSetupShared :: 'i phase) (m_pre_setup_shared M self)) w1
           = (Inr (), w2, tc)"
        "?rest2 w2 = (Inl e, wk, td)"
      by (elim disjE exE conjE) (assumption | erule (1) meta_mp [rotated])+
    then show ?thesis
    proof cases
      case c
      from if_not_setup_raises [OF c] p1 show ?thesis by blast
    next
      case d
      note p2 = if_not_setup_shared_phase [OF d(1)]
      from and_then_raises [OF d(2)]
      consider (f) tf' where
          "invoke (Setup args) (m_setup M self args) w2 = (Inl e, wk, tf')"
        | (g) w3 tf' tg where
          "invoke (Setup args) (m_setup M self args) w2 = (Inr (), w3, tf')"
          "?rest3 w3 = (Inl e, wk, tg)"
        by (elim disjE exE conjE) (assumption | erule (1) meta_mp [rotated])+
      then show ?thesis
      proof cases
        case f
        from invoke_raises [OF f] p1 p2 show ?thesis by blast
      next
        case g
        note p3 = invoke_returns [OF g(1)]
        from and_then_raises [OF g(2)]
        consider (h) th where
            "invoke (PostSetup :: 'i phase) (m_post_setup M self) w3 = (Inl e, wk, th)"
          | (i) w4 th ti where
            "invoke (PostSetup :: 'i phase) (m_post_setup M self) w3 = (Inr (), w4, th)"
            "?rest4 w4 = (Inl e, wk, ti)"
          by (elim disjE exE conjE) (assumption | erule (1) meta_mp [rotated])+
        then show ?thesis
        proof cases
          case h
          from invoke_raises [OF h] p1 p2 p3 show ?thesis by blast
        next
          case i
          note p4 = invoke_returns [OF i(1)]
          from if_not_setup_raises [OF i(2)] p1 p2 p3 p4 show ?thesis by blast
        qed
      qed
    qed
  qed
qed

lemma shared_phase_runs:
  fixes p :: "'i phase"
  assumes "shared_phase self h u u'"
  shows "\<exists>t :: 'i event list. if_not_setup self (invoke p h) u = (Inr (), u', t)"
  using assms by (auto simp: shared_phase_def if_not_setup_def invoke_def split: if_splits)

lemma setup_phases_raises_conv:
  fixes args :: 'i
  assumes "m_pre_setup M self w0 = (Inl e, wk)
         \<or> (\<exists>w1. m_pre_setup M self w0 = (Inr (), w1)
               \<and> \<not> truthy (is_setup (objs w1 ! self))
               \<and> m_pre_setup_shared M self w1 = (Inl e, wk))
         \<or> (\<exists>w1 w2. m_pre_setup M self w0 = (Inr (), w1)
               \<and> shared_phase self (m_pre_setup_shared M self) w1 w2
               \<and> m_setup M self args w2 = (Inl e, wk))
         \<or> (\<exists>w1 w2 w3. m_pre_setup M self w0 = (Inr (), w1)
               \<and> shared_phase self (m_pre_setup_shared M self) w1 w2
               \<and> m_setup M self args w2 = (Inr (), w3)
               \<and> m_post_setup M self w3 = (Inl e, wk))
         \<or> (\<exists>w1 w2 w3 w4. m_pre_setup M self w0 = (Inr (), w1)
               \<and> shared_phase self (m_pre_setup_shared M self) w1 w2
               \<and> m_setup M self args w2 = (Inr (), w3)
               \<and> m_post_setup M self w3 = (Inr (), w4)
               \<and> \<not> truthy (is_setup (objs w4 ! self))
               \<and> m_post_setup_shared M self w4 = (Inl e, wk))"
  shows "\<exists>t. setup_phases M self args w0 = (Inl e, wk, t)"
  using assms
proof (elim disjE exE conjE)
  assume "m_pre_setup M self w0 = (Inl e, wk)"
  then show ?thesis by (simp add: setup_phases_def and_then_def invoke_def)
next
  fix w1
  assume 1: "m_pre_setup M self w0 = (Inr (), w1)"
    and n: "\<not> truthy (is_setup (objs w1 ! self))"
    and 2: "m_pre_setup_shared M self w1 = (Inl e, wk)"
  have "if_not_setup self (invoke (PreSetupShared :: 'i phase) (m_pre_setup_shared M self)) w1
          = (Inl e, wk, [Invoke PreSetupShared, Raised PreSetupShared e])"
    using n 2 by (simp add: if_not_setup_def invoke_def)
  with 1 show ?thesis
    by (simp add: setup_phases_def and_then_def invoke_def)
next
  fix w1 w2
  assume 1: "m_pre_setup M self w0 = (Inr (), w1)"
    and 2: "shared_phase self (m_pre_setup_shared M self) w1 w2"
    and 3: "m_setup M self args w2 = (Inl e, wk)"
  from shared_phase_runs [OF 2, of PreSetupShared] obtain tb :: "'i event list" where
    b: "if_not_setup self (invoke PreSetupShared (m_pre_setup_shared M self)) w1
          = (Inr (), w2, tb)" ..
  from 1 3 show ?thesis
    by (simp add: setup_phases_def and_then_def invoke_def b)
next
  fix w1 w2 w3
  assume 1: "m_pre_setup M self w0 = (Inr (), w1)"
    and 2: "shared_phase self (m_pre_setup_shared M self) w1 w2"
    and 3: "m_setup M self args w2 = (Inr (), w3)"
    and 4: "m_post_setup M self w3 = (Inl e, wk)"
  from shared_phase_runs [OF 2, of PreSetupShared] obtain tb :: "'i event list" where
    b: "if_not_setup self (invoke PreSetupShared (m_pre_setup_shared M self)) w1
          = (Inr (), w2, tb)" ..
  from 1 3 4 show ?thesis
    by (simp add: setup_phases_def and_then_def invoke_def b)
next
  fix w1 w2 w3 w4
  assume 1: "m_pre_setup M self w0 = (Inr (), w1)"
    and 2: "shared_phase self (m_pre_setup_shared M self) w1 w2"
    and 3: "m_setup M self args w2 = (Inr (), w3)"
    and 4: "m_post_setup M self w3 = (Inr (), w4)"
    and n: "\<not> truthy (is_setup (objs w4 ! self))"
    and 5: "m_post_setup_shared M self w4 = (Inl e, wk)"
  from shared_phase_runs [OF 2, of PreSetupShared] obtain tb :: "'i event list" where
    b: "if_not_setup self (invoke PreSetupShared (m_pre_setup_shared M self)) w1
          = (Inr (), w2, tb)" ..
  have "if_not_setup self (invoke (PostSetupShared :: 'i phase) (m_post_setup_shared M self)) w4
          = (Inl e, wk, [Invoke PostSetupShared, Raised PostSetupShared e])"
    using n 5 by (simp add: if_not_setup_def invoke_def)
  with 1 3 4 show ?thesis
    by (simp add: setup_phases_def and_then_def invoke_def b)
qed

lemma setup_raises_if_phase_raises:
  assumes "phase_raises M B self args w e u"
  shows "fst (Block_setup M B self args w) = Inl e"
    and "fst (snd (Block_setup M B self args w)) = u"
proof -
  from assms obtain t0 wk where
    enter: "tf_variable_scope B (name (objs w ! self)) (is_setup (objs w ! self)) (tf w)
              = (Inr (), t0)"
    and u: "u = wk\<lparr>tf := tf_scope_exit B (tf wk)\<rparr>"
    and c: "m_pre_setup M self (w\<lparr>tf := t0\<rparr>) = (Inl e, wk)
         \<or> (\<exists>w1. m_pre_setup M self (w\<lparr>tf := t0\<rparr>) = (Inr (), w1)
               \<and> \<not> truthy (is_setup (objs w1 ! self))
               \<and> m_pre_setup_shared M self w1 = (Inl e, wk))
         \<or> (\<exists>w1 w2. m_pre_setup M self (w\<lparr>tf := t0\<rparr>) = (Inr (), w1)
               \<and> shared_phase self (m_pre_setup_shared M self) w1 w2
               \<and> m_setup M self args w2 = (Inl e, wk))
         \<or> (\<exists>w1 w2 w3. m_pre_setup M self (w\<lparr>tf := t0\<rparr>) = (Inr (), w1)
               \<and> shared_phase self (m_pre_setup_shared M self) w1 w2
               \<and> m_setup M self args w2 = (Inr (), w3)
               \<and> m_post_setup M self w3 = (Inl e, wk))
         \<or> (\<exists>w1 w2 w3 w4. m_pre_setup M self (w\<lparr>tf := t0\<rparr>) = (Inr (), w1)
               \<and> shared_phase self (m_pre_setup_shared M self) w1 w2
               \<and> m_setup M self args w2 = (Inr (), w3)
               \<and> m_post_setup M self w3 = (Inr (), w4)
               \<and> \<not> truthy (is_setup (objs w4 ! self))
               \<and> m_post_setup_shared M self w4 = (Inl e, wk))"
    unfolding phase_raises_def by (elim exE conjE) (rule that)
  from setup_phases_raises_conv [OF c] obtain tr where
    body: "setup_phases M self args (w\<lparr>tf := t0\<rparr>) = (Inl e, wk, tr)" ..
  from enter body u show "fst (Block_setup M B self args w) = Inl e"
    and "fst (snd (Block_setup M B self args w)) = u"
    by (simp_all add: Block_setup_def Let_def)
qed

lemma phase_raises_if_setup_raises:
  assumes "Block_setup M B self args w = (Inl e, w', evs)"
  shows "(\<exists>t. tf_variable_scope B (name (objs w ! self)) (is_setup (objs w ! self)) (tf w)
                = (Inl e, t) \<and> w' = w\<lparr>tf := t\<rparr>)
         \<or> phase_raises M B self args w e w'"
proof -
  let ?scope = "name (objs w ! self)" and ?reuse = "is_setup (objs w ! self)"
  obtain r0 t0 where enter: "tf_variable_scope B ?scope ?reuse (tf w) = (r0, t0)"
    by (cases "tf_variable_scope B ?scope ?reuse (tf w)")
  show ?thesis
  proof (cases r0)
    case (Inl e0)
    with assms enter have "e = e0" "w' = w\<lparr>tf := t0\<rparr>"
      by (simp_all add: Block_setup_def Let_def)
    with enter Inl show ?thesis by simp
  next
    case (Inr x)
    obtain r1 wk tr where body: "setup_phases M self args (w\<lparr>tf := t0\<rparr>) = (r1, wk, tr)"
      by (cases "setup_phases M self args (w\<lparr>tf := t0\<rparr>)")
    with assms enter Inr have r1: "r1 = Inl e" and w': "w' = wk\<lparr>tf := tf_scope_exit B (tf wk)\<rparr>"
      by (cases r1; simp add: Block_setup_def Let_def)+
    from enter Inr have enter': "tf_variable_scope B ?scope ?reuse (tf w) = (Inr (), t0)"
      by simp
    note c = setup_phases_raises [OF body [unfolded r1]]
    have "phase_raises M B self args w e w'"
      unfolding phase_raises_def
      by (intro exI conjI) (rule enter', rule w', rule c)
    then show ?thesis ..
  qed
qed

text \<open>
  C9. An exception of a phase propagates. For every method table: when the scope is
  entered and a phase, reached as \<^verbatim>\<open>setup\<close> reaches it, raises, the call raises
  that exception, no later phase is run and \<^verbatim>\<open>setup\<close> assigns nothing: the store
  is the one the raising phase left, with the scope left. A call raises only so, or
  because entering the scope did. When no phase assigns \<^verbatim>\<open>is_setup\<close> itself, a
  call that raises leaves \<^verbatim>\<open>is_setup\<close> as it was, and when the block was never set
  up, the next call that returns enters the scope with the same \<^verbatim>\<open>reuse\<close> and runs
  all five phases, the shared ones included.
\<close>

theorem Block_setup_exception_propagates:
  fixes M :: "(('a block_scheme, 'tf) world, 'i) methods"
  assumes run: "Block_setup M B self args w = (r, w', evs)"
  shows "(\<forall>e u. phase_raises M B self args w e u \<longrightarrow> r = Inl e \<and> w' = u)
       \<and> (\<forall>e. r = Inl e \<longrightarrow>
             (\<exists>t. tf_variable_scope B (name (objs w ! self)) (is_setup (objs w ! self)) (tf w)
                    = (Inl e, t) \<and> w' = w\<lparr>tf := t\<rparr>)
             \<or> phase_raises M B self args w e w')
       \<and> (well_behaved M self \<and> self < length (objs w) \<longrightarrow>
            (\<forall>p e. Raised p e \<in> set evs \<longrightarrow> r = Inl e)
          \<and> (\<forall>e. r = Inl e \<longrightarrow>
                self < length (objs w')
              \<and> is_setup (objs w' ! self) = is_setup (objs w ! self)
              \<and> (\<not> truthy (is_setup (objs w ! self)) \<longrightarrow>
                   (\<forall>args2 w2 evs2. Block_setup M B self args2 w' = (Inr (), w2, evs2) \<longrightarrow>
                      phases_run M B self args2 (is_setup (objs w ! self)) True w' w2
                    \<and> evs2 = [ScopeEnter (name (objs w' ! self)) (is_setup (objs w ! self)),
                               Invoke PreSetup, Invoke PreSetupShared, Invoke (Setup args2),
                               Invoke PostSetup, Invoke PostSetupShared, ScopeExit]))))"
proof -
  have a: "\<forall>e u. phase_raises M B self args w e u \<longrightarrow> r = Inl e \<and> w' = u"
  proof (intro allI impI)
    fix e u assume "phase_raises M B self args w e u"
    from setup_raises_if_phase_raises [OF this] run show "r = Inl e \<and> w' = u" by simp
  qed
  have b: "\<forall>e. r = Inl e \<longrightarrow>
             (\<exists>t. tf_variable_scope B (name (objs w ! self)) (is_setup (objs w ! self)) (tf w)
                    = (Inl e, t) \<and> w' = w\<lparr>tf := t\<rparr>)
             \<or> phase_raises M B self args w e w'"
  proof (intro allI impI)
    fix e assume "r = Inl e"
    with run have "Block_setup M B self args w = (Inl e, w', evs)" by simp
    then show "(\<exists>t. tf_variable_scope B (name (objs w ! self)) (is_setup (objs w ! self)) (tf w)
                    = (Inl e, t) \<and> w' = w\<lparr>tf := t\<rparr>)
             \<or> phase_raises M B self args w e w'"
      by (rule phase_raises_if_setup_raises)
  qed
  have c: "well_behaved M self \<and> self < length (objs w) \<longrightarrow>
            (\<forall>p e. Raised p e \<in> set evs \<longrightarrow> r = Inl e)
          \<and> (\<forall>e. r = Inl e \<longrightarrow>
                self < length (objs w')
              \<and> is_setup (objs w' ! self) = is_setup (objs w ! self)
              \<and> (\<not> truthy (is_setup (objs w ! self)) \<longrightarrow>
                   (\<forall>args2 w2 evs2. Block_setup M B self args2 w' = (Inr (), w2, evs2) \<longrightarrow>
                      phases_run M B self args2 (is_setup (objs w ! self)) True w' w2
                    \<and> evs2 = [ScopeEnter (name (objs w' ! self)) (is_setup (objs w ! self)),
                               Invoke PreSetup, Invoke PreSetupShared, Invoke (Setup args2),
                               Invoke PostSetup, Invoke PostSetupShared, ScopeExit])))"
  proof (rule impI, elim conjE)
    assume wb: "well_behaved M self" and v: "self < length (objs w)"
    note v' = Block_setup_run(1) [OF wb v run]
    have c1: "\<forall>p e. Raised p e \<in> set evs \<longrightarrow> r = Inl e"
    proof (intro allI impI)
      fix p e assume m: "Raised p e \<in> set evs"
      show "r = Inl e"
      proof (cases r)
        case (Inr u)
        then have "r = Inr ()" by simp
        from Block_setup_run(2) [OF wb v run this] m show ?thesis by auto
      next
        case (Inl e1)
        from Block_setup_run(3) [OF wb v run Inl] m have "e = e1" by auto
        with Inl show ?thesis by simp
      qed
    qed
    have c2: "\<forall>e. r = Inl e \<longrightarrow>
                self < length (objs w')
              \<and> is_setup (objs w' ! self) = is_setup (objs w ! self)
              \<and> (\<not> truthy (is_setup (objs w ! self)) \<longrightarrow>
                   (\<forall>args2 w2 evs2. Block_setup M B self args2 w' = (Inr (), w2, evs2) \<longrightarrow>
                      phases_run M B self args2 (is_setup (objs w ! self)) True w' w2
                    \<and> evs2 = [ScopeEnter (name (objs w' ! self)) (is_setup (objs w ! self)),
                               Invoke PreSetup, Invoke PreSetupShared, Invoke (Setup args2),
                               Invoke PostSetup, Invoke PostSetupShared, ScopeExit]))"
    proof (intro allI impI)
      fix e assume r: "r = Inl e"
      from Block_setup_run(3) [OF wb v run r]
      have same: "is_setup (objs w' ! self) = is_setup (objs w ! self)" by simp
      have retry: "\<not> truthy (is_setup (objs w ! self)) \<longrightarrow>
                   (\<forall>args2 w2 evs2. Block_setup M B self args2 w' = (Inr (), w2, evs2) \<longrightarrow>
                      phases_run M B self args2 (is_setup (objs w ! self)) True w' w2
                    \<and> evs2 = [ScopeEnter (name (objs w' ! self)) (is_setup (objs w ! self)),
                               Invoke PreSetup, Invoke PreSetupShared, Invoke (Setup args2),
                               Invoke PostSetup, Invoke PostSetupShared, ScopeExit])"
      proof (intro allI impI)
        fix args2 :: 'i and w2 :: "('a block_scheme, 'tf) world" and evs2 :: "'i event list"
        assume n: "\<not> truthy (is_setup (objs w ! self))"
          and run2: "Block_setup M B self args2 w' = (Inr (), w2, evs2)"
        from setup_returns_phases_run(1,2) [OF wb v' run2] same n
        show "phases_run M B self args2 (is_setup (objs w ! self)) True w' w2
                    \<and> evs2 = [ScopeEnter (name (objs w' ! self)) (is_setup (objs w ! self)),
                               Invoke PreSetup, Invoke PreSetupShared, Invoke (Setup args2),
                               Invoke PostSetup, Invoke PostSetupShared, ScopeExit]"
          by (simp add: planned_def)
      qed
      from v' same retry
      show "self < length (objs w')
              \<and> is_setup (objs w' ! self) = is_setup (objs w ! self)
              \<and> (\<not> truthy (is_setup (objs w ! self)) \<longrightarrow>
                   (\<forall>args2 w2 evs2. Block_setup M B self args2 w' = (Inr (), w2, evs2) \<longrightarrow>
                      phases_run M B self args2 (is_setup (objs w ! self)) True w' w2
                    \<and> evs2 = [ScopeEnter (name (objs w' ! self)) (is_setup (objs w ! self)),
                               Invoke PreSetup, Invoke PreSetupShared, Invoke (Setup args2),
                               Invoke PostSetup, Invoke PostSetupShared, ScopeExit]))"
        by (intro conjI)
    qed
    from c1 c2 show "(\<forall>p e. Raised p e \<in> set evs \<longrightarrow> r = Inl e)
          \<and> (\<forall>e. r = Inl e \<longrightarrow>
                self < length (objs w')
              \<and> is_setup (objs w' ! self) = is_setup (objs w ! self)
              \<and> (\<not> truthy (is_setup (objs w ! self)) \<longrightarrow>
                   (\<forall>args2 w2 evs2. Block_setup M B self args2 w' = (Inr (), w2, evs2) \<longrightarrow>
                      phases_run M B self args2 (is_setup (objs w ! self)) True w' w2
                    \<and> evs2 = [ScopeEnter (name (objs w' ! self)) (is_setup (objs w ! self)),
                               Invoke PreSetup, Invoke PreSetupShared, Invoke (Setup args2),
                               Invoke PostSetup, Invoke PostSetupShared, ScopeExit])))"
      by (intro conjI)
  qed
  show ?thesis by (intro conjI) (rule a, rule b, rule c)
qed

theorem Block_setup_exception_propagates_witness:
  "fst (Block_setup (ProcessingLayer_methods ref_backend flaky) ref_backend 0 True
          (layer_world (Some 0.9))) = Inl (ValueError ''bad input'')
   \<and> phase_raises (ProcessingLayer_methods ref_backend flaky) ref_backend 0 True
       (layer_world (Some 0.9)) (ValueError ''bad input'') failed_world
   \<and> snd (snd (Block_setup (ProcessingLayer_methods ref_backend flaky) ref_backend 0 True
                 (layer_world (Some 0.9))))
     = [ScopeEnter ''fc1'' None, Invoke PreSetup, Invoke PreSetupShared, Invoke (Setup True),
        Raised (Setup True) (ValueError ''bad input''), ScopeExit]
   \<and> objs failed_world
     = [\<lparr>name = ''fc1'', do_summary = True, bag = None, is_setup = None,
         moving_average_decay = Some 0.9, var_list = 0, is_val = False,
         moving_averages = Some 0, moving_averages_op = None,
         attr_data = None, attr_loss = None\<rparr>]
   \<and> tf failed_world
     = \<lparr>g_scopes = [], g_store = [Tensor ''global/global_step'' []], g_averaged = [[]],
        g_summaries = []\<rparr>
   \<and> fst (Block_setup (ProcessingLayer_methods ref_backend flaky) ref_backend 0 False
            failed_world) = Inr ()
   \<and> phases_run (ProcessingLayer_methods ref_backend flaky) ref_backend 0 False None True
       failed_world retried_world
   \<and> snd (snd (Block_setup (ProcessingLayer_methods ref_backend flaky) ref_backend 0 False
                 failed_world))
     = [ScopeEnter ''fc1'' None, Invoke PreSetup, Invoke PreSetupShared, Invoke (Setup False),
        Invoke PostSetup, Invoke PostSetupShared, ScopeExit]
   \<and> objs retried_world
     = [\<lparr>name = ''fc1'', do_summary = True, bag = None, is_setup = Some True,
         moving_average_decay = Some 0.9, var_list = 0, is_val = False,
         moving_averages = Some 1, moving_averages_op = Some ''ExponentialMovingAverage'',
         attr_data = Some (Some (Tensor ''fc1/weights_'' [2, 3])), attr_loss = None\<rparr>]
   \<and> pylists retried_world = [[Tensor ''fc1/weights'' [2, 3]]]
   \<and> g_averaged (tf retried_world) = [[], [Tensor ''fc1/weights'' [2, 3]]]"
proof -
  let ?M = "ProcessingLayer_methods ref_backend flaky"
  let ?w = "layer_world (Some 0.9)"
  let ?e = "ValueError ''bad input''"
  let ?run = "Block_setup ?M ref_backend 0 True ?w"
  let ?run2 = "Block_setup ?M ref_backend 0 False failed_world"
  have ok: "decay_ok (Some 0.9)" by (simp add: decay_ok_def)
  have r1: "fst ?run = Inl ?e"
    by (simp add: run_defs py_defs)
  have r2: "fst ?run2 = Inr ()"
    by (simp add: run_defs py_defs)
  have run: "?run = (Inl ?e, failed_world, snd (snd ?run))"
    using r1 by (simp add: failed_world_def prod_eq_iff)
  have run2: "?run2 = (Inr (), retried_world, snd (snd ?run2))"
    using r2 by (simp add: retried_world_def prod_eq_iff)
  have h: "well_behaved ?M 0 \<and> 0 < length (objs ?w)"
    by (simp add: well_behaved_ProcessingLayer fresh_layer_length [OF ok])
  have i0: "is_setup (objs ?w ! 0) = None" "name (objs ?w ! 0) = ''fc1''"
    by (simp_all add: fresh_layer [OF ok])
  have nt: "\<not> truthy (is_setup (objs ?w ! 0))"
    by (simp add: i0 truthy_def)
  have n1: "name (objs failed_world ! 0) = ''fc1''"
    by (simp add: run_defs py_defs)
  have enters: "\<not> (\<exists>t. tf_variable_scope ref_backend (name (objs ?w ! 0))
                          (is_setup (objs ?w ! 0)) (tf ?w) = (Inl ?e, t)
                      \<and> failed_world = ?w\<lparr>tf := t\<rparr>)"
    by (simp add: ref_backend_def ref_variable_scope_def)
  note t = Block_setup_exception_propagates [OF run]
  note b = t [THEN conjunct2, THEN conjunct1, THEN spec, THEN mp, OF refl]
  note c = t [THEN conjunct2, THEN conjunct2, THEN mp, OF h]
  note c2 = c [THEN conjunct2, THEN spec, THEN mp, OF refl]
  note c3 = c2 [THEN conjunct2, THEN conjunct2, THEN mp, OF nt, THEN spec, THEN spec, THEN spec,
      THEN mp, OF run2]
  from b enters have 1: "phase_raises ?M ref_backend 0 True ?w ?e failed_world"
    by blast
  from c3 have 2: "phases_run ?M ref_backend 0 False None True failed_world retried_world"
    and 3: "snd (snd ?run2)
     = [ScopeEnter ''fc1'' None, Invoke PreSetup, Invoke PreSetupShared, Invoke (Setup False),
        Invoke PostSetup, Invoke PostSetupShared, ScopeExit]"
    by (simp_all add: i0 n1)
  have 4: "snd (snd ?run)
     = [ScopeEnter ''fc1'' None, Invoke PreSetup, Invoke PreSetupShared, Invoke (Setup True),
        Raised (Setup True) ?e, ScopeExit]"
    by (simp add: run_defs py_defs)
  have 5: "objs failed_world
     = [\<lparr>name = ''fc1'', do_summary = True, bag = None, is_setup = None,
         moving_average_decay = Some 0.9, var_list = 0, is_val = False,
         moving_averages = Some 0, moving_averages_op = None,
         attr_data = None, attr_loss = None\<rparr>]"
    by (simp add: run_defs py_defs)
  have 6: "tf failed_world
     = \<lparr>g_scopes = [], g_store = [Tensor ''global/global_step'' []], g_averaged = [[]],
        g_summaries = []\<rparr>"
    by (simp add: run_defs py_defs)
  have 7: "objs retried_world
     = [\<lparr>name = ''fc1'', do_summary = True, bag = None, is_setup = Some True,
         moving_average_decay = Some 0.9, var_list = 0, is_val = False,
         moving_averages = Some 1, moving_averages_op = Some ''ExponentialMovingAverage'',
         attr_data = Some (Some (Tensor ''fc1/weights_'' [2, 3])), attr_loss = None\<rparr>]"
    by (simp add: run_defs py_defs)
  have 8: "pylists retried_world = [[Tensor ''fc1/weights'' [2, 3]]]"
    by (simp add: run_defs py_defs)
  have 9: "g_averaged (tf retried_world) = [[], [Tensor ''fc1/weights'' [2, 3]]]"
    by (simp add: run_defs py_defs)
  show ?thesis
    by (intro conjI) (rule r1, rule 1, rule 4, rule 5, rule 6, rule r2, rule 2, rule 3,
      rule 7, rule 8, rule 9)
qed

end
